theory Spec2Isabelle
  imports Complex_Main "HOL-Library.Char_ord" "HOL-Library.List_Lexorder"
begin

section \<open>JSON documents and Go's encoding/json\<close>

text \<open>
  The resource codec of goformation is written against Go's \<^verbatim>\<open>encoding/json\<close>.
  A document is modelled as a tree: an object is the list of its members in document
  order (Go's decoder reads them one after the other, and a name may occur twice).
  The byte syntax (tokens, escapes, malformed text) lies below this model, and a
  number is the value the decoder reads from its token.
\<close>

datatype json =
    JNull
  | JBool bool
  | JNumber rat
  | JString string
  | JArray "json list"
  | JObject "(string \<times> json) list"

text \<open>
  Errors of a decode. \<open>UnknownField k\<close> is \<^verbatim>\<open>json: unknown field "k"\<close>,
  \<open>UnmarshalTypeError f\<close> is \<^verbatim>\<open>json: cannot unmarshal ... into Go struct field f\<close>,
  \<open>NilDereference\<close> is the run-time panic of reading a field through a nil pointer, and
  \<open>CodecError\<close> is an error of a nested type's own decoder.
\<close>

datatype error =
    UnknownField string
  | UnmarshalTypeError string
  | NilDereference
  | CodecError string

text \<open>
  The decoder keeps the first error it saves (\<^verbatim>\<open>d.saveError\<close>) and goes on; an error
  returned by a nested \<^verbatim>\<open>UnmarshalJSON\<close> aborts the decode at once. A decoding step
  therefore yields either \<open>Inl e\<close> (aborted) or \<open>Inr (saved, x)\<close>: the value decoded so
  far and the error saved on the way, if any.
\<close>

type_synonym 'a decoded = "error + (error option \<times> 'a)"

definition first_error :: "error option \<Rightarrow> error option \<Rightarrow> error option" where
  "first_error a b = (case a of None \<Rightarrow> b | Some e \<Rightarrow> Some e)"

subsection \<open>Matching member names to struct fields\<close>

text \<open>
  \<^verbatim>\<open>encoding/json\<close> matches a member name to a struct field "preferring an exact match
  but also accepting a case-insensitive match". The fold maps ASCII letters to upper
  case, and the two runes outside ASCII whose simple-folding orbit meets ASCII to their
  letter: U+017F (bytes C5 BF) to S and U+212A (bytes E2 84 AA) to K. Any other rune
  outside ASCII folds to a rune outside ASCII; the model keeps its bytes, which agrees
  with Go wherever a folded name is compared with the folded name of an ASCII field.
\<close>

definition upper_ascii :: "char \<Rightarrow> char" where
  "upper_ascii c =
     (case map_of (zip ''abcdefghijklmnopqrstuvwxyz'' ''ABCDEFGHIJKLMNOPQRSTUVWXYZ'') c of
        Some u \<Rightarrow> u
      | None \<Rightarrow> c)"

fun foldName :: "string \<Rightarrow> string" where
  "foldName [] = []"
| "foldName (c # cs) =
     (if c = CHR 0xC5 \<and> take 1 cs = [CHR 0xBF] then CHR ''S'' # foldName (drop 1 cs)
      else if c = CHR 0xE2 \<and> take 2 cs = [CHR 0x84, CHR 0xAA] then CHR ''K'' # foldName (drop 2 cs)
      else upper_ascii c # foldName cs)"

text \<open>
  The field of a member name: the exact match if there is one, otherwise the first field
  of the struct whose folded name is the folded member name.
\<close>

definition lookup_field :: "(string \<times> 'f) list \<Rightarrow> string \<Rightarrow> 'f option" where
  "lookup_field fields key =
     (case map_of fields key of
        Some f \<Rightarrow> Some f
      | None \<Rightarrow> map_of (map (\<lambda>(n, f). (foldName n, f)) fields) (foldName key))"

subsection \<open>Decoding an object into a struct\<close>

text \<open>
  \<^verbatim>\<open>d.object\<close> on a struct: the members are read in order; a member with a field is
  stored into it by \<open>store\<close>; a member without one is skipped, and saves an unknown-field
  error when \<^verbatim>\<open>DisallowUnknownFields\<close> is set.
\<close>

fun decode_object ::
  "(string \<times> 'f) list \<Rightarrow> bool \<Rightarrow> ('f \<Rightarrow> json \<Rightarrow> 'st \<Rightarrow> 'st decoded) \<Rightarrow>
   (string \<times> json) list \<Rightarrow> error option \<Rightarrow> 'st \<Rightarrow> 'st decoded" where
  "decode_object fields disallow store [] saved st = Inr (saved, st)"
| "decode_object fields disallow store ((k, v) # ms) saved st =
     (case lookup_field fields k of
        None \<Rightarrow>
          decode_object fields disallow store ms
            (if disallow then first_error saved (Some (UnknownField k)) else saved) st
      | Some f \<Rightarrow>
          (case store f v st of
             Inl e \<Rightarrow> Inl e
           | Inr (saved', st') \<Rightarrow>
               decode_object fields disallow store ms (first_error saved saved') st'))"

text \<open>
  \<^verbatim>\<open>d.valueInterface\<close>: a value decoded into \<^verbatim>\<open>interface{}\<close>. An object becomes a
  \<^verbatim>\<open>map[string]interface{}\<close>, in which a later member replaces an earlier one of the
  same name. A Go map is represented by its entries in increasing key order, which is
  also the order in which the encoder writes them.
\<close>

fun map_store :: "string \<Rightarrow> 'a \<Rightarrow> (string \<times> 'a) list \<Rightarrow> (string \<times> 'a) list" where
  "map_store k v [] = [(k, v)]"
| "map_store k v ((k', v') # m) =
     (if k = k' then (k, v) # m
      else if k < k' then (k, v) # (k', v') # m
      else (k', v') # map_store k v m)"

primrec valueInterface :: "json \<Rightarrow> json" where
  "valueInterface JNull = JNull"
| "valueInterface (JBool b) = JBool b"
| "valueInterface (JNumber n) = JNumber n"
| "valueInterface (JString s) = JString s"
| "valueInterface (JArray xs) = JArray (map valueInterface xs)"
| "valueInterface (JObject ms) =
     JObject (fold (\<lambda>(k, v). map_store k v) (map (map_prod id valueInterface) ms) [])"

subsection \<open>Strings, pointers, slices and maps\<close>

text \<open>
  \<^verbatim>\<open>d.value\<close> into a field of kind string: a string is stored, null has no effect, and
  any other value saves a type error and leaves the field as it is.
\<close>

definition decode_string :: "string \<Rightarrow> string \<Rightarrow> json \<Rightarrow> string decoded" where
  "decode_string fname cur v =
     (case v of
        JString s \<Rightarrow> Inr (None, s)
      | JNull \<Rightarrow> Inr (None, cur)
      | _ \<Rightarrow> Inr (Some (UnmarshalTypeError fname), cur))"

text \<open>
  A pointer field: null sets it to nil (\<open>None\<close>); any other value is decoded into the
  pointee, which is allocated first when the pointer is nil. \<open>dec\<close> receives the current
  pointee (\<open>None\<close> for a fresh zero value).
\<close>

definition decode_pointer ::
  "('a option \<Rightarrow> json \<Rightarrow> 'a decoded) \<Rightarrow> 'a option \<Rightarrow> json \<Rightarrow> 'a option decoded" where
  "decode_pointer dec cur v =
     (if v = JNull then Inr (None, None)
      else (case dec cur v of Inl e \<Rightarrow> Inl e | Inr (s, x) \<Rightarrow> Inr (s, Some x)))"

text \<open>
  A slice field (\<^verbatim>\<open>d.array\<close>): null sets it to nil; an array is decoded element by
  element into the slots of the current slice, extended by zero slots and cut to the
  array's length (an empty array gives an empty slice that is not nil); any other value
  saves a type error. The model takes every slot beyond the current length as zero.
\<close>

fun decode_elements ::
  "('a option \<Rightarrow> json \<Rightarrow> 'a decoded) \<Rightarrow> 'a list \<Rightarrow> json list \<Rightarrow> 'a list decoded" where
  "decode_elements dec cur [] = Inr (None, [])"
| "decode_elements dec cur (x # xs) =
     (case dec (case cur of [] \<Rightarrow> None | y # _ \<Rightarrow> Some y) x of
        Inl e \<Rightarrow> Inl e
      | Inr (s, y) \<Rightarrow>
          (case decode_elements dec (tl cur) xs of
             Inl e \<Rightarrow> Inl e
           | Inr (s', ys) \<Rightarrow> Inr (first_error s s', y # ys)))"

definition decode_slice ::
  "string \<Rightarrow> ('a option \<Rightarrow> json \<Rightarrow> 'a decoded) \<Rightarrow> 'a list option \<Rightarrow> json \<Rightarrow>
   'a list option decoded" where
  "decode_slice fname dec cur v =
     (case v of
        JNull \<Rightarrow> Inr (None, None)
      | JArray xs \<Rightarrow>
          (case decode_elements dec (case cur of None \<Rightarrow> [] | Some ys \<Rightarrow> ys) xs of
             Inl e \<Rightarrow> Inl e
           | Inr (s, ys) \<Rightarrow> Inr (s, Some ys))
      | _ \<Rightarrow> Inr (Some (UnmarshalTypeError fname), cur))"

definition decode_string_element :: "string \<Rightarrow> string option \<Rightarrow> json \<Rightarrow> string decoded" where
  "decode_string_element fname cur v =
     decode_string fname (case cur of None \<Rightarrow> [] | Some s \<Rightarrow> s) v"

text \<open>
  A field of type \<^verbatim>\<open>map[string]interface{}\<close>: null sets it to nil; an object stores
  each member into the current map (a new one when it is nil); any other value saves a
  type error.
\<close>

definition decode_map ::
  "string \<Rightarrow> (string \<times> json) list option \<Rightarrow> json \<Rightarrow> (string \<times> json) list option decoded" where
  "decode_map fname cur v =
     (case v of
        JNull \<Rightarrow> Inr (None, None)
      | JObject ms \<Rightarrow>
          Inr (None, Some (fold (\<lambda>(k, x). map_store k (valueInterface x)) ms
                             (case cur of None \<Rightarrow> [] | Some m \<Rightarrow> m)))
      | _ \<Rightarrow> Inr (Some (UnmarshalTypeError fname), cur))"

definition stored :: "('a \<Rightarrow> 'st) \<Rightarrow> 'a decoded \<Rightarrow> 'st decoded" where
  "stored upd d = (case d of Inl e \<Rightarrow> Inl e | Inr (s, x) \<Rightarrow> Inr (s, upd x))"

subsection \<open>The types that are not part of the sources\<close>

text \<open>
  \<^verbatim>\<open>types.Value\<close> and the nested property structs (\<^verbatim>\<open>DeploymentGroup_AlarmConfiguration\<close>,
  \<^verbatim>\<open>MLTransform_GlueTables\<close>, ...) are declared elsewhere in goformation. Their values
  are the type parameters \<open>'v\<close> and \<open>'s\<close>, and their codecs are parameters of the model:
  an encoder, and a decoder that receives the current content of its target (\<open>None\<close>
  for a fresh zero value) and the document. The nested structs are told apart by the
  name of their Go type.
\<close>

record ('v, 's) codecs =
  enc_value :: "'v \<Rightarrow> json"
  dec_value :: "'v option \<Rightarrow> json \<Rightarrow> 'v decoded"
  enc_sub :: "string \<Rightarrow> 's \<Rightarrow> json"
  dec_sub :: "string \<Rightarrow> 's option \<Rightarrow> json \<Rightarrow> 's decoded"

section \<open>Property subtypes\<close>

text \<open>
  \<^verbatim>\<open>Service_DeploymentController\<close> (package ecs) and \<^verbatim>\<open>MLTransform_InputRecordTables\<close>
  (package glue). A pointer is an option (\<open>None\<close> is nil), and so is a slice or a map,
  whose nil and empty values differ. The policies are string types.
\<close>

record 'v Service_DeploymentController =
  Type :: "'v option"
  AWSCloudFormationDeletionPolicy :: string
  AWSCloudFormationUpdateReplacePolicy :: string
  AWSCloudFormationDependsOn :: "string list option"
  AWSCloudFormationMetadata :: "(string \<times> json) list option"
  AWSCloudFormationCondition :: string

record 's MLTransform_InputRecordTables =
  GlueTables :: "'s list option"
  AWSCloudFormationDeletionPolicy :: string
  AWSCloudFormationUpdateReplacePolicy :: string
  AWSCloudFormationDependsOn :: "string list option"
  AWSCloudFormationMetadata :: "(string \<times> json) list option"
  AWSCloudFormationCondition :: string

text \<open>
  The subtypes have no \<^verbatim>\<open>MarshalJSON\<close> or \<^verbatim>\<open>UnmarshalJSON\<close> of their own:
  \<^verbatim>\<open>encoding/json\<close> reads the struct tags. The only field of each without the tag
  \<^verbatim>\<open>json:"-"\<close> is its property. Decoding is \<^verbatim>\<open>d.value\<close> into the struct \<open>r\<close>: null has
  no effect on a struct, an object is read member by member, anything else saves a type
  error. \<open>disallow\<close> is the decoder's \<^verbatim>\<open>DisallowUnknownFields\<close>.
\<close>

definition encode_Service_DeploymentController ::
  "('v, 's) codecs \<Rightarrow> 'v Service_DeploymentController \<Rightarrow> json" where
  "encode_Service_DeploymentController cd r =
     JObject (case Type r of None \<Rightarrow> [] | Some x \<Rightarrow> [(''Type'', enc_value cd x)])"

definition decode_Service_DeploymentController ::
  "('v, 's) codecs \<Rightarrow> bool \<Rightarrow> 'v Service_DeploymentController \<Rightarrow> json \<Rightarrow>
   'v Service_DeploymentController decoded" where
  "decode_Service_DeploymentController cd disallow r v =
     (case v of
        JNull \<Rightarrow> Inr (None, r)
      | JObject ms \<Rightarrow>
          decode_object [(''Type'', ())] disallow
            (\<lambda>f x p. stored (\<lambda>y. p\<lparr>Type := y\<rparr>) (decode_pointer (dec_value cd) (Type p) x))
            ms None r
      | _ \<Rightarrow> Inr (Some (UnmarshalTypeError []), r))"

definition encode_MLTransform_InputRecordTables ::
  "('v, 's) codecs \<Rightarrow> 's MLTransform_InputRecordTables \<Rightarrow> json" where
  "encode_MLTransform_InputRecordTables cd r =
     JObject
       (case GlueTables r of
          None \<Rightarrow> []
        | Some xs \<Rightarrow>
            if xs = [] then []
            else [(''GlueTables'', JArray (map (enc_sub cd ''MLTransform_GlueTables'') xs))])"

definition decode_MLTransform_InputRecordTables ::
  "('v, 's) codecs \<Rightarrow> bool \<Rightarrow> 's MLTransform_InputRecordTables \<Rightarrow> json \<Rightarrow>
   's MLTransform_InputRecordTables decoded" where
  "decode_MLTransform_InputRecordTables cd disallow r v =
     (case v of
        JNull \<Rightarrow> Inr (None, r)
      | JObject ms \<Rightarrow>
          decode_object [(''GlueTables'', ())] disallow
            (\<lambda>f x p. stored (\<lambda>y. p\<lparr>GlueTables := y\<rparr>)
               (decode_slice ''GlueTables'' (dec_sub cd ''MLTransform_GlueTables'') (GlueTables p) x))
            ms None r
      | _ \<Rightarrow> Inr (Some (UnmarshalTypeError []), r))"

text \<open>The five attributes of a subtype value, and the names they have in a resource.\<close>

definition attributes_Service_DeploymentController ::
  "'v Service_DeploymentController \<Rightarrow>
   string \<times> string \<times> string list option \<times> (string \<times> json) list option \<times> string" where
  "attributes_Service_DeploymentController r =
     (Service_DeploymentController.AWSCloudFormationDeletionPolicy r,
      Service_DeploymentController.AWSCloudFormationUpdateReplacePolicy r,
      Service_DeploymentController.AWSCloudFormationDependsOn r,
      Service_DeploymentController.AWSCloudFormationMetadata r,
      Service_DeploymentController.AWSCloudFormationCondition r)"

definition attributes_MLTransform_InputRecordTables ::
  "'s MLTransform_InputRecordTables \<Rightarrow>
   string \<times> string \<times> string list option \<times> (string \<times> json) list option \<times> string" where
  "attributes_MLTransform_InputRecordTables r =
     (MLTransform_InputRecordTables.AWSCloudFormationDeletionPolicy r,
      MLTransform_InputRecordTables.AWSCloudFormationUpdateReplacePolicy r,
      MLTransform_InputRecordTables.AWSCloudFormationDependsOn r,
      MLTransform_InputRecordTables.AWSCloudFormationMetadata r,
      MLTransform_InputRecordTables.AWSCloudFormationCondition r)"

definition attribute_keys :: "string list" where
  "attribute_keys =
     [''DeletionPolicy'', ''UpdateReplacePolicy'', ''DependsOn'', ''Metadata'', ''Condition'']"

definition zero_Service_DeploymentController :: "json Service_DeploymentController" where
  "zero_Service_DeploymentController =
     \<lparr>Type = None,
      AWSCloudFormationDeletionPolicy = [],
      AWSCloudFormationUpdateReplacePolicy = [],
      AWSCloudFormationDependsOn = None,
      AWSCloudFormationMetadata = None,
      AWSCloudFormationCondition = []\<rparr>"

definition example_Service_DeploymentController :: "json Service_DeploymentController" where
  "example_Service_DeploymentController =
     \<lparr>Type = Some (JString ''ECS''),
      AWSCloudFormationDeletionPolicy = ''Retain'',
      AWSCloudFormationUpdateReplacePolicy = ''Delete'',
      AWSCloudFormationDependsOn = Some [''Cluster''],
      AWSCloudFormationMetadata = Some [(''owner'', JString ''ops'')],
      AWSCloudFormationCondition = ''IsProd''\<rparr>"

definition zero_MLTransform_InputRecordTables :: "json MLTransform_InputRecordTables" where
  "zero_MLTransform_InputRecordTables =
     \<lparr>GlueTables = None,
      AWSCloudFormationDeletionPolicy = [],
      AWSCloudFormationUpdateReplacePolicy = [],
      AWSCloudFormationDependsOn = None,
      AWSCloudFormationMetadata = None,
      AWSCloudFormationCondition = []\<rparr>"

definition example_MLTransform_InputRecordTables :: "json MLTransform_InputRecordTables" where
  "example_MLTransform_InputRecordTables =
     \<lparr>GlueTables = Some [JObject [(''TableName'', JString ''t'')]],
      AWSCloudFormationDeletionPolicy = ''Retain'',
      AWSCloudFormationUpdateReplacePolicy = ''Delete'',
      AWSCloudFormationDependsOn = Some [''Database''],
      AWSCloudFormationMetadata = Some [(''owner'', JString ''ops'')],
      AWSCloudFormationCondition = ''IsProd''\<rparr>"

section \<open>The resource DeploymentGroup\<close>

record ('v, 's) DeploymentGroup =
  AlarmConfiguration :: "'s option"
  ApplicationName :: "'v option"
  AutoRollbackConfiguration :: "'s option"
  AutoScalingGroups :: "'v option"
  BlueGreenDeploymentConfiguration :: "'s option"
  Deployment :: "'s option"
  DeploymentConfigName :: "'v option"
  DeploymentGroupName :: "'v option"
  DeploymentStyle :: "'s option"
  ECSServices :: "'s list option"
  Ec2TagFilters :: "'s list option"
  Ec2TagSet :: "'s option"
  LoadBalancerInfo :: "'s option"
  OnPremisesInstanceTagFilters :: "'s list option"
  OnPremisesTagSet :: "'s option"
  ServiceRoleArn :: "'v option"
  TriggerConfigurations :: "'s list option"
  AWSCloudFormationDeletionPolicy :: string
  AWSCloudFormationUpdateReplacePolicy :: string
  AWSCloudFormationDependsOn :: "string list option"
  AWSCloudFormationMetadata :: "(string \<times> json) list option"
  AWSCloudFormationCondition :: string

text \<open>The zero value of the struct: what \<^verbatim>\<open>new(Properties)\<close> holds.\<close>

definition zero_DeploymentGroup :: "('v, 's) DeploymentGroup" where
  "zero_DeploymentGroup =
     \<lparr>AlarmConfiguration = None,
      ApplicationName = None,
      AutoRollbackConfiguration = None,
      AutoScalingGroups = None,
      BlueGreenDeploymentConfiguration = None,
      Deployment = None,
      DeploymentConfigName = None,
      DeploymentGroupName = None,
      DeploymentStyle = None,
      ECSServices = None,
      Ec2TagFilters = None,
      Ec2TagSet = None,
      LoadBalancerInfo = None,
      OnPremisesInstanceTagFilters = None,
      OnPremisesTagSet = None,
      ServiceRoleArn = None,
      TriggerConfigurations = None,
      AWSCloudFormationDeletionPolicy = [],
      AWSCloudFormationUpdateReplacePolicy = [],
      AWSCloudFormationDependsOn = None,
      AWSCloudFormationMetadata = None,
      AWSCloudFormationCondition = []\<rparr>"

text \<open>
  The fields that the JSON codec sees, by the kind of their type: pointers to
  \<^verbatim>\<open>types.Value\<close>, pointers to a nested struct, slices of a nested struct. The five
  \<^verbatim>\<open>AWSCloudFormation...\<close> fields carry the tag \<^verbatim>\<open>json:"-"\<close> and are not among them.
\<close>

datatype vfield =
    F_ApplicationName
  | F_AutoScalingGroups
  | F_DeploymentConfigName
  | F_DeploymentGroupName
  | F_ServiceRoleArn

datatype sfield =
    F_AlarmConfiguration
  | F_AutoRollbackConfiguration
  | F_BlueGreenDeploymentConfiguration
  | F_Deployment
  | F_DeploymentStyle
  | F_Ec2TagSet
  | F_LoadBalancerInfo
  | F_OnPremisesTagSet

datatype lfield =
    F_ECSServices
  | F_Ec2TagFilters
  | F_OnPremisesInstanceTagFilters
  | F_TriggerConfigurations

datatype pfield = PValue vfield | PSub sfield | PSlice lfield

definition DeploymentGroup_fields :: "(string \<times> pfield) list" where
  "DeploymentGroup_fields =
     [(''AlarmConfiguration'', PSub F_AlarmConfiguration),
      (''ApplicationName'', PValue F_ApplicationName),
      (''AutoRollbackConfiguration'', PSub F_AutoRollbackConfiguration),
      (''AutoScalingGroups'', PValue F_AutoScalingGroups),
      (''BlueGreenDeploymentConfiguration'', PSub F_BlueGreenDeploymentConfiguration),
      (''Deployment'', PSub F_Deployment),
      (''DeploymentConfigName'', PValue F_DeploymentConfigName),
      (''DeploymentGroupName'', PValue F_DeploymentGroupName),
      (''DeploymentStyle'', PSub F_DeploymentStyle),
      (''ECSServices'', PSlice F_ECSServices),
      (''Ec2TagFilters'', PSlice F_Ec2TagFilters),
      (''Ec2TagSet'', PSub F_Ec2TagSet),
      (''LoadBalancerInfo'', PSub F_LoadBalancerInfo),
      (''OnPremisesInstanceTagFilters'', PSlice F_OnPremisesInstanceTagFilters),
      (''OnPremisesTagSet'', PSub F_OnPremisesTagSet),
      (''ServiceRoleArn'', PValue F_ServiceRoleArn),
      (''TriggerConfigurations'', PSlice F_TriggerConfigurations)]"

fun get_value :: "vfield \<Rightarrow> ('v, 's) DeploymentGroup \<Rightarrow> 'v option" where
  "get_value F_ApplicationName r = ApplicationName r"
| "get_value F_AutoScalingGroups r = AutoScalingGroups r"
| "get_value F_DeploymentConfigName r = DeploymentConfigName r"
| "get_value F_DeploymentGroupName r = DeploymentGroupName r"
| "get_value F_ServiceRoleArn r = ServiceRoleArn r"

fun set_value :: "vfield \<Rightarrow> 'v option \<Rightarrow> ('v, 's) DeploymentGroup \<Rightarrow> ('v, 's) DeploymentGroup" where
  "set_value F_ApplicationName x r = r\<lparr>ApplicationName := x\<rparr>"
| "set_value F_AutoScalingGroups x r = r\<lparr>AutoScalingGroups := x\<rparr>"
| "set_value F_DeploymentConfigName x r = r\<lparr>DeploymentConfigName := x\<rparr>"
| "set_value F_DeploymentGroupName x r = r\<lparr>DeploymentGroupName := x\<rparr>"
| "set_value F_ServiceRoleArn x r = r\<lparr>ServiceRoleArn := x\<rparr>"

fun get_sub :: "sfield \<Rightarrow> ('v, 's) DeploymentGroup \<Rightarrow> 's option" where
  "get_sub F_AlarmConfiguration r = AlarmConfiguration r"
| "get_sub F_AutoRollbackConfiguration r = AutoRollbackConfiguration r"
| "get_sub F_BlueGreenDeploymentConfiguration r = BlueGreenDeploymentConfiguration r"
| "get_sub F_Deployment r = Deployment r"
| "get_sub F_DeploymentStyle r = DeploymentStyle r"
| "get_sub F_Ec2TagSet r = Ec2TagSet r"
| "get_sub F_LoadBalancerInfo r = LoadBalancerInfo r"
| "get_sub F_OnPremisesTagSet r = OnPremisesTagSet r"

fun set_sub :: "sfield \<Rightarrow> 's option \<Rightarrow> ('v, 's) DeploymentGroup \<Rightarrow> ('v, 's) DeploymentGroup" where
  "set_sub F_AlarmConfiguration x r = r\<lparr>AlarmConfiguration := x\<rparr>"
| "set_sub F_AutoRollbackConfiguration x r = r\<lparr>AutoRollbackConfiguration := x\<rparr>"
| "set_sub F_BlueGreenDeploymentConfiguration x r = r\<lparr>BlueGreenDeploymentConfiguration := x\<rparr>"
| "set_sub F_Deployment x r = r\<lparr>Deployment := x\<rparr>"
| "set_sub F_DeploymentStyle x r = r\<lparr>DeploymentStyle := x\<rparr>"
| "set_sub F_Ec2TagSet x r = r\<lparr>Ec2TagSet := x\<rparr>"
| "set_sub F_LoadBalancerInfo x r = r\<lparr>LoadBalancerInfo := x\<rparr>"
| "set_sub F_OnPremisesTagSet x r = r\<lparr>OnPremisesTagSet := x\<rparr>"

fun get_slice :: "lfield \<Rightarrow> ('v, 's) DeploymentGroup \<Rightarrow> 's list option" where
  "get_slice F_ECSServices r = ECSServices r"
| "get_slice F_Ec2TagFilters r = Ec2TagFilters r"
| "get_slice F_OnPremisesInstanceTagFilters r = OnPremisesInstanceTagFilters r"
| "get_slice F_TriggerConfigurations r = TriggerConfigurations r"

fun set_slice :: "lfield \<Rightarrow> 's list option \<Rightarrow> ('v, 's) DeploymentGroup \<Rightarrow> ('v, 's) DeploymentGroup" where
  "set_slice F_ECSServices x r = r\<lparr>ECSServices := x\<rparr>"
| "set_slice F_Ec2TagFilters x r = r\<lparr>Ec2TagFilters := x\<rparr>"
| "set_slice F_OnPremisesInstanceTagFilters x r = r\<lparr>OnPremisesInstanceTagFilters := x\<rparr>"
| "set_slice F_TriggerConfigurations x r = r\<lparr>TriggerConfigurations := x\<rparr>"

text \<open>The Go type of a nested struct field, and of the elements of a slice field.\<close>

fun sub_type :: "sfield \<Rightarrow> string" where
  "sub_type F_AlarmConfiguration = ''DeploymentGroup_AlarmConfiguration''"
| "sub_type F_AutoRollbackConfiguration = ''DeploymentGroup_AutoRollbackConfiguration''"
| "sub_type F_BlueGreenDeploymentConfiguration = ''DeploymentGroup_BlueGreenDeploymentConfiguration''"
| "sub_type F_Deployment = ''DeploymentGroup_Deployment''"
| "sub_type F_DeploymentStyle = ''DeploymentGroup_DeploymentStyle''"
| "sub_type F_Ec2TagSet = ''DeploymentGroup_EC2TagSet''"
| "sub_type F_LoadBalancerInfo = ''DeploymentGroup_LoadBalancerInfo''"
| "sub_type F_OnPremisesTagSet = ''DeploymentGroup_OnPremisesTagSet''"

fun slice_type :: "lfield \<Rightarrow> string" where
  "slice_type F_ECSServices = ''DeploymentGroup_ECSService''"
| "slice_type F_Ec2TagFilters = ''DeploymentGroup_EC2TagFilter''"
| "slice_type F_OnPremisesInstanceTagFilters = ''DeploymentGroup_TagFilter''"
| "slice_type F_TriggerConfigurations = ''DeploymentGroup_TriggerConfig''"

fun slice_name :: "lfield \<Rightarrow> string" where
  "slice_name F_ECSServices = ''ECSServices''"
| "slice_name F_Ec2TagFilters = ''Ec2TagFilters''"
| "slice_name F_OnPremisesInstanceTagFilters = ''OnPremisesInstanceTagFilters''"
| "slice_name F_TriggerConfigurations = ''TriggerConfigurations''"

subsection \<open>Encoding\<close>

text \<open>
  \<^verbatim>\<open>type Properties DeploymentGroup\<close> has the fields of the resource and none of its
  methods, so \<^verbatim>\<open>json.Marshal\<close> writes it field by field, in the order of declaration.
  Every field carries \<^verbatim>\<open>omitempty\<close>: a nil pointer and a slice of length zero are left
  out.
\<close>

fun encode_field ::
  "('v, 's) codecs \<Rightarrow> ('v, 's) DeploymentGroup \<Rightarrow> string \<times> pfield \<Rightarrow> (string \<times> json) list" where
  "encode_field cd r (n, PValue f) =
     (case get_value f r of None \<Rightarrow> [] | Some x \<Rightarrow> [(n, enc_value cd x)])"
| "encode_field cd r (n, PSub f) =
     (case get_sub f r of None \<Rightarrow> [] | Some x \<Rightarrow> [(n, enc_sub cd (sub_type f) x)])"
| "encode_field cd r (n, PSlice f) =
     (case get_slice f r of
        None \<Rightarrow> []
      | Some xs \<Rightarrow> if xs = [] then [] else [(n, JArray (map (enc_sub cd (slice_type f)) xs))])"

definition encode_Properties :: "('v, 's) codecs \<Rightarrow> ('v, 's) DeploymentGroup \<Rightarrow> json" where
  "encode_Properties cd r = JObject (concat (map (encode_field cd r) DeploymentGroup_fields))"

definition AWSCloudFormationType :: "('v, 's) DeploymentGroup \<Rightarrow> string" where
  "AWSCloudFormationType r = ''AWS::CodeDeploy::DeploymentGroup''"

text \<open>
  \<^verbatim>\<open>MarshalJSON\<close>: the anonymous struct with \<^verbatim>\<open>Type\<close> and \<^verbatim>\<open>Properties\<close> (no tag:
  always written) and the five fields tagged \<^verbatim>\<open>omitempty\<close>, in this order.
\<close>

definition MarshalJSON :: "('v, 's) codecs \<Rightarrow> ('v, 's) DeploymentGroup \<Rightarrow> json" where
  "MarshalJSON cd r =
     JObject
       ([(''Type'', JString (AWSCloudFormationType r)),
         (''Properties'', encode_Properties cd r)]
        @ (case AWSCloudFormationDependsOn r of
             None \<Rightarrow> []
           | Some ds \<Rightarrow> if ds = [] then [] else [(''DependsOn'', JArray (map JString ds))])
        @ (case AWSCloudFormationMetadata r of
             None \<Rightarrow> []
           | Some m \<Rightarrow> if m = [] then [] else [(''Metadata'', JObject m)])
        @ (if AWSCloudFormationDeletionPolicy r = [] then []
           else [(''DeletionPolicy'', JString (AWSCloudFormationDeletionPolicy r))])
        @ (if AWSCloudFormationUpdateReplacePolicy r = [] then []
           else [(''UpdateReplacePolicy'', JString (AWSCloudFormationUpdateReplacePolicy r))])
        @ (if AWSCloudFormationCondition r = [] then []
           else [(''Condition'', JString (AWSCloudFormationCondition r))]))"

subsection \<open>Decoding\<close>

text \<open>A member of the \<^verbatim>\<open>Properties\<close> object, stored into its field.\<close>

fun store_property ::
  "('v, 's) codecs \<Rightarrow> pfield \<Rightarrow> json \<Rightarrow> ('v, 's) DeploymentGroup \<Rightarrow>
   ('v, 's) DeploymentGroup decoded" where
  "store_property cd (PValue f) v p =
     stored (\<lambda>x. set_value f x p) (decode_pointer (dec_value cd) (get_value f p) v)"
| "store_property cd (PSub f) v p =
     stored (\<lambda>x. set_sub f x p) (decode_pointer (dec_sub cd (sub_type f)) (get_sub f p) v)"
| "store_property cd (PSlice f) v p =
     stored (\<lambda>x. set_slice f x p)
       (decode_slice (slice_name f) (dec_sub cd (slice_type f)) (get_slice f p) v)"

text \<open>
  A value that is not null, decoded into the struct \<^verbatim>\<open>Properties\<close>: an object is read
  member by member, under the decoder's \<^verbatim>\<open>DisallowUnknownFields\<close>; anything else saves
  a type error.
\<close>

definition decode_Properties ::
  "('v, 's) codecs \<Rightarrow> ('v, 's) DeploymentGroup option \<Rightarrow> json \<Rightarrow>
   ('v, 's) DeploymentGroup decoded" where
  "decode_Properties cd cur v =
     (let p = (case cur of None \<Rightarrow> zero_DeploymentGroup | Some q \<Rightarrow> q) in
      case v of
        JObject ms \<Rightarrow> decode_object DeploymentGroup_fields True (store_property cd) ms None p
      | _ \<Rightarrow> Inr (Some (UnmarshalTypeError ''Properties''), p))"

text \<open>The anonymous struct \<^verbatim>\<open>res\<close> of \<^verbatim>\<open>UnmarshalJSON\<close>.\<close>

record ('v, 's) res =
  res_Type :: string
  res_Properties :: "('v, 's) DeploymentGroup option"
  res_DependsOn :: "string list option"
  res_Metadata :: "(string \<times> json) list option"
  res_DeletionPolicy :: string
  res_UpdateReplacePolicy :: string
  res_Condition :: string

definition zero_res :: "('v, 's) res" where
  "zero_res =
     \<lparr>res_Type = [], res_Properties = None, res_DependsOn = None, res_Metadata = None,
      res_DeletionPolicy = [], res_UpdateReplacePolicy = [], res_Condition = []\<rparr>"

datatype efield =
    E_Type
  | E_Properties
  | E_DependsOn
  | E_Metadata
  | E_DeletionPolicy
  | E_UpdateReplacePolicy
  | E_Condition

definition res_fields :: "(string \<times> efield) list" where
  "res_fields =
     [(''Type'', E_Type),
      (''Properties'', E_Properties),
      (''DependsOn'', E_DependsOn),
      (''Metadata'', E_Metadata),
      (''DeletionPolicy'', E_DeletionPolicy),
      (''UpdateReplacePolicy'', E_UpdateReplacePolicy),
      (''Condition'', E_Condition)]"

fun store_res ::
  "('v, 's) codecs \<Rightarrow> efield \<Rightarrow> json \<Rightarrow> ('v, 's) res \<Rightarrow> ('v, 's) res decoded" where
  "store_res cd E_Type v rs =
     stored (\<lambda>x. rs\<lparr>res_Type := x\<rparr>) (decode_string ''Type'' (res_Type rs) v)"
| "store_res cd E_Properties v rs =
     stored (\<lambda>x. rs\<lparr>res_Properties := x\<rparr>)
       (decode_pointer (decode_Properties cd) (res_Properties rs) v)"
| "store_res cd E_DependsOn v rs =
     stored (\<lambda>x. rs\<lparr>res_DependsOn := x\<rparr>)
       (decode_slice ''DependsOn'' (decode_string_element ''DependsOn'') (res_DependsOn rs) v)"
| "store_res cd E_Metadata v rs =
     stored (\<lambda>x. rs\<lparr>res_Metadata := x\<rparr>) (decode_map ''Metadata'' (res_Metadata rs) v)"
| "store_res cd E_DeletionPolicy v rs =
     stored (\<lambda>x. rs\<lparr>res_DeletionPolicy := x\<rparr>)
       (decode_string ''DeletionPolicy'' (res_DeletionPolicy rs) v)"
| "store_res cd E_UpdateReplacePolicy v rs =
     stored (\<lambda>x. rs\<lparr>res_UpdateReplacePolicy := x\<rparr>)
       (decode_string ''UpdateReplacePolicy'' (res_UpdateReplacePolicy rs) v)"
| "store_res cd E_Condition v rs =
     stored (\<lambda>x. rs\<lparr>res_Condition := x\<rparr>) (decode_string ''Condition'' (res_Condition rs) v)"

text \<open>
  \<^verbatim>\<open>dec.Decode(&res)\<close>, where \<^verbatim>\<open>res\<close> points to a zero struct: null sets \<^verbatim>\<open>res\<close>
  to nil, an object is read into the struct, anything else is a type error. The decode
  fails with the first saved error, if there is one.
\<close>

definition Decode :: "('v, 's) codecs \<Rightarrow> json \<Rightarrow> error + ('v, 's) res option" where
  "Decode cd b =
     (case b of
        JNull \<Rightarrow> Inr None
      | JObject ms \<Rightarrow>
          (case decode_object res_fields True (store_res cd) ms None zero_res of
             Inl e \<Rightarrow> Inl e
           | Inr (Some e, rs) \<Rightarrow> Inl e
           | Inr (None, rs) \<Rightarrow> Inr (Some rs))
      | _ \<Rightarrow> Inl (UnmarshalTypeError []))"

text \<open>
  The assignments of \<^verbatim>\<open>UnmarshalJSON\<close> after the decode: the receiver is replaced by
  the decoded \<^verbatim>\<open>Properties\<close> when there are any, then each attribute that the document
  gave is stored.
\<close>

definition assign_res ::
  "('v, 's) res \<Rightarrow> ('v, 's) DeploymentGroup \<Rightarrow> ('v, 's) DeploymentGroup" where
  "assign_res rs r =
     (let r1 = (case res_Properties rs of None \<Rightarrow> r | Some p \<Rightarrow> p);
          r2 = (case res_DependsOn rs of
                  None \<Rightarrow> r1
                | Some ds \<Rightarrow> r1\<lparr>AWSCloudFormationDependsOn := Some ds\<rparr>);
          r3 = (case res_Metadata rs of
                  None \<Rightarrow> r2
                | Some m \<Rightarrow> r2\<lparr>AWSCloudFormationMetadata := Some m\<rparr>);
          r4 = (if res_DeletionPolicy rs \<noteq> []
                then r3\<lparr>AWSCloudFormationDeletionPolicy := res_DeletionPolicy rs\<rparr>
                else r3);
          r5 = (if res_UpdateReplacePolicy rs \<noteq> []
                then r4\<lparr>AWSCloudFormationUpdateReplacePolicy := res_UpdateReplacePolicy rs\<rparr>
                else r4)
      in if res_Condition rs \<noteq> []
         then r5\<lparr>AWSCloudFormationCondition := res_Condition rs\<rparr>
         else r5)"

text \<open>
  \<^verbatim>\<open>UnmarshalJSON\<close> on the receiver \<open>r\<close>: the result is the error, or the receiver after
  the call. Reading \<^verbatim>\<open>res.Properties\<close> through a nil \<^verbatim>\<open>res\<close> panics. The line printed
  on an error is not modelled.
\<close>

definition UnmarshalJSON ::
  "('v, 's) codecs \<Rightarrow> ('v, 's) DeploymentGroup \<Rightarrow> json \<Rightarrow> error + ('v, 's) DeploymentGroup" where
  "UnmarshalJSON cd r b =
     (case Decode cd b of
        Inl e \<Rightarrow> Inl e
      | Inr None \<Rightarrow> Inl NilDereference
      | Inr (Some rs) \<Rightarrow> Inr (assign_res rs r))"

section \<open>A concrete instance\<close>

text \<open>
  Codecs in which a value of an absent type is the JSON tree itself: encoding is the
  identity and decoding always succeeds. They serve to run the model on concrete input.
\<close>

definition plain :: "(json, json) codecs" where
  "plain =
     \<lparr>enc_value = (\<lambda>x. x),
      dec_value = (\<lambda>cur v. Inr (None, v)),
      enc_sub = (\<lambda>t x. x),
      dec_sub = (\<lambda>t cur v. Inr (None, v))\<rparr>"

definition zero_plain :: "(json, json) DeploymentGroup" where
  "zero_plain = zero_DeploymentGroup"

text \<open>The members of an object, and the members for which the struct \<^verbatim>\<open>res\<close> has no field.\<close>

definition members :: "json \<Rightarrow> (string \<times> json) list" where
  "members j = (case j of JObject ms \<Rightarrow> ms | _ \<Rightarrow> [])"


text \<open>The five attributes of a resource, and the resource with its attributes set to zero.\<close>

definition attributes_DeploymentGroup ::
  "('v, 's) DeploymentGroup \<Rightarrow>
   string \<times> string \<times> string list option \<times> (string \<times> json) list option \<times> string" where
  "attributes_DeploymentGroup r =
     (AWSCloudFormationDeletionPolicy r,
      AWSCloudFormationUpdateReplacePolicy r,
      AWSCloudFormationDependsOn r,
      AWSCloudFormationMetadata r,
      AWSCloudFormationCondition r)"

definition properties_of :: "('v, 's) DeploymentGroup \<Rightarrow> ('v, 's) DeploymentGroup" where
  "properties_of r =
     r\<lparr>AWSCloudFormationDeletionPolicy := [],
       AWSCloudFormationUpdateReplacePolicy := [],
       AWSCloudFormationDependsOn := None,
       AWSCloudFormationMetadata := None,
       AWSCloudFormationCondition := []\<rparr>"

text \<open>Whether an object has a member that the decoder matches to a field of \<^verbatim>\<open>res\<close>.\<close>

definition has_member :: "(string \<times> json) list \<Rightarrow> efield \<Rightarrow> bool" where
  "has_member ms f = list_ex (\<lambda>m. lookup_field res_fields (fst m) = Some f) ms"

text \<open>The decoded \<^verbatim>\<open>Properties\<close> of a \<^verbatim>\<open>res\<close> carry no attributes.\<close>

definition res_clean :: "('v, 's) res \<Rightarrow> bool" where
  "res_clean rs =
     (case res_Properties rs of
        None \<Rightarrow> True
      | Some p \<Rightarrow> attributes_DeploymentGroup p = ([], [], None, None, []))"

text \<open>
  Modelled from the spec: the package \<^verbatim>\<open>policies\<close> is not part of the sources. The spec
  gives the values of both policy types: Delete, Retain, Snapshot, and the empty string
  for a policy that is not set.
\<close>

definition policy_values :: "string list" where
  "policy_values = [''Delete'', ''Retain'', ''Snapshot'']"

definition valid_policy :: "string \<Rightarrow> bool" where
  "valid_policy s = (s = [] \<or> s \<in> set policy_values)"

text \<open>The strings that an object gives for an attribute of kind string.\<close>

definition given_strings :: "(string \<times> json) list \<Rightarrow> efield \<Rightarrow> string list" where
  "given_strings ms f =
     concat (map (\<lambda>m. if lookup_field res_fields (fst m) = Some f
                      then (case snd m of JString s \<Rightarrow> [s] | _ \<Rightarrow> []) else []) ms)"

text \<open>
  The object gives Properties: it has a member matched to \<^verbatim>\<open>Properties\<close>, and no such
  member is null (null sets the pointer back to nil).
\<close>

definition properties_given :: "(string \<times> json) list \<Rightarrow> bool" where
  "properties_given ms =
     (has_member ms E_Properties
      \<and> list_all (\<lambda>m. lookup_field res_fields (fst m) \<noteq> Some E_Properties \<or> snd m \<noteq> JNull) ms)"

text \<open>A receiver that holds a property and all five attributes.\<close>

definition held_plain :: "(json, json) DeploymentGroup" where
  "held_plain =
     zero_plain\<lparr>ApplicationName := Some (JString ''app''),
                AWSCloudFormationDeletionPolicy := ''Retain'',
                AWSCloudFormationUpdateReplacePolicy := ''Delete'',
                AWSCloudFormationDependsOn := Some [''A''],
                AWSCloudFormationMetadata := Some [(''owner'', JString ''ops'')],
                AWSCloudFormationCondition := ''IsProd''\<rparr>"

text \<open>
  A property field that \<^verbatim>\<open>omitempty\<close> leaves out: a nil pointer, or a slice that is nil or
  of length zero. The property set is empty when every field is.
\<close>

fun field_empty :: "('v, 's) DeploymentGroup \<Rightarrow> pfield \<Rightarrow> bool" where
  "field_empty r (PValue f) = (get_value f r = None)"
| "field_empty r (PSub f) = (get_sub f r = None)"
| "field_empty r (PSlice f) = (get_slice f r = None \<or> get_slice f r = Some [])"

definition properties_empty :: "('v, 's) DeploymentGroup \<Rightarrow> bool" where
  "properties_empty r = list_all (field_empty r) (map snd DeploymentGroup_fields)"

section \<open>Facts about the generic decoder\<close>

lemma first_error_None: "first_error None b = b"
  by (simp add: first_error_def)

lemma stored_Inr: "stored upd d = Inr (sv, x) \<Longrightarrow> \<exists>y. d = Inr (sv, y) \<and> x = upd y"
  by (auto simp: stored_def split: sum.splits)

text \<open>
  A component of the struct that no store of a matched member changes is the same
  after the object has been read.
\<close>

lemma decode_object_frame:
  assumes "decode_object F d st ms sv s = Inr (sv', s')"
    and "\<And>k v f t sv1 t'. (k, v) \<in> set ms \<Longrightarrow> lookup_field F k = Some f \<Longrightarrow>
           st f v t = Inr (sv1, t') \<Longrightarrow> proj t' = proj t"
  shows "proj s' = proj s"
  using assms
proof (induction ms arbitrary: sv s)
  case Nil
  then show ?case by simp
next
  case (Cons m ms)
  obtain k v where m: "m = (k, v)" by (cases m)
  show ?case
  proof (cases "lookup_field F k")
    case None
    with Cons.prems(1) m have
      "decode_object F d st ms (if d then first_error sv (Some (UnknownField k)) else sv) s
         = Inr (sv', s')"
      by simp
    then show ?thesis using Cons.IH Cons.prems(2) by (meson list.set_intros(2))
  next
    case (Some f)
    with Cons.prems(1) m obtain sv1 t where
      st: "st f v s = Inr (sv1, t)" and
      rest: "decode_object F d st ms (first_error sv sv1) t = Inr (sv', s')"
      by (auto split: sum.splits)
    have "proj t = proj s"
      using Cons.prems(2)[of k v f s sv1 t] m Some st by simp
    moreover have "proj s' = proj t"
      using Cons.IH[OF rest] Cons.prems(2) by (meson list.set_intros(2))
    ultimately show ?thesis by simp
  qed
qed

section \<open>Property subtypes: the five attributes are outside the JSON form\<close>

lemma decode_Service_DeploymentController_attributes:
  assumes "decode_Service_DeploymentController cd disallow r v = Inr (sv, r')"
  shows "attributes_Service_DeploymentController r' = attributes_Service_DeploymentController r"
proof (cases v)
  case (JObject ms)
  with assms have d: "decode_object [(''Type'', ())] disallow
            (\<lambda>f x p. stored (\<lambda>y. p\<lparr>Type := y\<rparr>) (decode_pointer (dec_value cd) (Type p) x))
            ms None r = Inr (sv, r')"
    by (simp add: decode_Service_DeploymentController_def)
  show ?thesis
    by (rule decode_object_frame[OF d])
       (auto simp: attributes_Service_DeploymentController_def dest!: stored_Inr)
qed (use assms in \<open>auto simp: decode_Service_DeploymentController_def\<close>)

lemma decode_MLTransform_InputRecordTables_attributes:
  assumes "decode_MLTransform_InputRecordTables cd disallow r v = Inr (sv, r')"
  shows "attributes_MLTransform_InputRecordTables r' = attributes_MLTransform_InputRecordTables r"
proof (cases v)
  case (JObject ms)
  with assms have d: "decode_object [(''GlueTables'', ())] disallow
            (\<lambda>f x p. stored (\<lambda>y. p\<lparr>GlueTables := y\<rparr>)
               (decode_slice ''GlueTables'' (dec_sub cd ''MLTransform_GlueTables'') (GlueTables p) x))
            ms None r = Inr (sv, r')"
    by (simp add: decode_MLTransform_InputRecordTables_def)
  show ?thesis
    by (rule decode_object_frame[OF d])
       (auto simp: attributes_MLTransform_InputRecordTables_def dest!: stored_Inr)
qed (use assms in \<open>auto simp: decode_MLTransform_InputRecordTables_def\<close>)

lemma encode_Service_DeploymentController_keys:
  "\<exists>ms. encode_Service_DeploymentController cd r = JObject ms
         \<and> (\<forall>k \<in> set attribute_keys. k \<notin> fst ` set ms)"
  by (cases "Type r") (simp_all add: encode_Service_DeploymentController_def attribute_keys_def)

lemma encode_MLTransform_InputRecordTables_keys:
  "\<exists>ms. encode_MLTransform_InputRecordTables cd t = JObject ms
         \<and> (\<forall>k \<in> set attribute_keys. k \<notin> fst ` set ms)"
  by (cases "GlueTables t") (simp_all add: encode_MLTransform_InputRecordTables_def attribute_keys_def)

text \<open>
  Claim C10. For the property subtypes \<^verbatim>\<open>Service_DeploymentController\<close> and
  \<^verbatim>\<open>MLTransform_InputRecordTables\<close>, the five attribute fields (DeletionPolicy,
  UpdateReplacePolicy, DependsOn, Metadata, Condition) take no part in the JSON form:
  the encoding of a value has none of the five keys, whatever the fields hold; a decode
  that succeeds leaves the five fields of its target as they were, whatever the
  document holds; so decoding the encoding of a value into another target gives the
  target's attributes, not the value's.
\<close>

theorem subtype_attributes_outside_json:
  fixes cd :: "('v, 's) codecs"
    and r r0 :: "'v Service_DeploymentController"
    and t t0 :: "'s MLTransform_InputRecordTables"
  shows
    "(\<exists>ms. encode_Service_DeploymentController cd r = JObject ms
         \<and> (\<forall>k \<in> set attribute_keys. k \<notin> fst ` set ms))
     \<and> (\<forall>disallow v sv r'.
           decode_Service_DeploymentController cd disallow r0 v = Inr (sv, r') \<longrightarrow>
           attributes_Service_DeploymentController r' = attributes_Service_DeploymentController r0)
     \<and> (\<forall>disallow sv r'.
           decode_Service_DeploymentController cd disallow r0
             (encode_Service_DeploymentController cd r) = Inr (sv, r') \<longrightarrow>
           attributes_Service_DeploymentController r' = attributes_Service_DeploymentController r0)
     \<and> (\<exists>ms. encode_MLTransform_InputRecordTables cd t = JObject ms
         \<and> (\<forall>k \<in> set attribute_keys. k \<notin> fst ` set ms))
     \<and> (\<forall>disallow v sv t'.
           decode_MLTransform_InputRecordTables cd disallow t0 v = Inr (sv, t') \<longrightarrow>
           attributes_MLTransform_InputRecordTables t' = attributes_MLTransform_InputRecordTables t0)
     \<and> (\<forall>disallow sv t'.
           decode_MLTransform_InputRecordTables cd disallow t0
             (encode_MLTransform_InputRecordTables cd t) = Inr (sv, t') \<longrightarrow>
           attributes_MLTransform_InputRecordTables t' = attributes_MLTransform_InputRecordTables t0)"
proof (intro conjI allI impI)
  show "\<exists>ms. encode_Service_DeploymentController cd r = JObject ms
         \<and> (\<forall>k \<in> set attribute_keys. k \<notin> fst ` set ms)"
    by (rule encode_Service_DeploymentController_keys)
  show "\<exists>ms. encode_MLTransform_InputRecordTables cd t = JObject ms
         \<and> (\<forall>k \<in> set attribute_keys. k \<notin> fst ` set ms)"
    by (rule encode_MLTransform_InputRecordTables_keys)
qed (erule decode_Service_DeploymentController_attributes
      decode_MLTransform_InputRecordTables_attributes)+

theorem subtype_attributes_outside_json_witness:
  "encode_Service_DeploymentController plain example_Service_DeploymentController
     = JObject [(''Type'', JString ''ECS'')]
   \<and> decode_Service_DeploymentController plain True zero_Service_DeploymentController
       (encode_Service_DeploymentController plain example_Service_DeploymentController)
     = Inr (None, zero_Service_DeploymentController\<lparr>Type := Some (JString ''ECS'')\<rparr>)
   \<and> attributes_Service_DeploymentController
       (zero_Service_DeploymentController\<lparr>Type := Some (JString ''ECS'')\<rparr>)
     = attributes_Service_DeploymentController zero_Service_DeploymentController
   \<and> attributes_Service_DeploymentController example_Service_DeploymentController
     \<noteq> attributes_Service_DeploymentController zero_Service_DeploymentController
   \<and> encode_MLTransform_InputRecordTables plain example_MLTransform_InputRecordTables
     = JObject [(''GlueTables'', JArray [JObject [(''TableName'', JString ''t'')]])]
   \<and> decode_MLTransform_InputRecordTables plain True zero_MLTransform_InputRecordTables
       (encode_MLTransform_InputRecordTables plain example_MLTransform_InputRecordTables)
     = Inr (None, zero_MLTransform_InputRecordTables
         \<lparr>GlueTables := Some [JObject [(''TableName'', JString ''t'')]]\<rparr>)
   \<and> attributes_MLTransform_InputRecordTables
       (zero_MLTransform_InputRecordTables
         \<lparr>GlueTables := Some [JObject [(''TableName'', JString ''t'')]]\<rparr>)
     = attributes_MLTransform_InputRecordTables zero_MLTransform_InputRecordTables
   \<and> attributes_MLTransform_InputRecordTables example_MLTransform_InputRecordTables
     \<noteq> attributes_MLTransform_InputRecordTables zero_MLTransform_InputRecordTables"
proof -
  have d1: "decode_Service_DeploymentController plain True zero_Service_DeploymentController
       (encode_Service_DeploymentController plain example_Service_DeploymentController)
     = Inr (None, zero_Service_DeploymentController\<lparr>Type := Some (JString ''ECS'')\<rparr>)"
    by (simp add: decode_Service_DeploymentController_def encode_Service_DeploymentController_def
        example_Service_DeploymentController_def plain_def lookup_field_def stored_def
        decode_pointer_def first_error_def)
  have d2: "decode_MLTransform_InputRecordTables plain True zero_MLTransform_InputRecordTables
       (encode_MLTransform_InputRecordTables plain example_MLTransform_InputRecordTables)
     = Inr (None, zero_MLTransform_InputRecordTables
         \<lparr>GlueTables := Some [JObject [(''TableName'', JString ''t'')]]\<rparr>)"
    by (simp add: decode_MLTransform_InputRecordTables_def encode_MLTransform_InputRecordTables_def
        example_MLTransform_InputRecordTables_def plain_def lookup_field_def stored_def
        decode_slice_def first_error_def zero_MLTransform_InputRecordTables_def)
  have a1: "attributes_Service_DeploymentController
       (zero_Service_DeploymentController\<lparr>Type := Some (JString ''ECS'')\<rparr>)
     = attributes_Service_DeploymentController zero_Service_DeploymentController"
    by (rule subtype_attributes_outside_json
      [of plain example_Service_DeploymentController zero_Service_DeploymentController
          example_MLTransform_InputRecordTables zero_MLTransform_InputRecordTables,
       THEN conjunct2, THEN conjunct1, rule_format, OF d1])
  have a2: "attributes_MLTransform_InputRecordTables
       (zero_MLTransform_InputRecordTables
         \<lparr>GlueTables := Some [JObject [(''TableName'', JString ''t'')]]\<rparr>)
     = attributes_MLTransform_InputRecordTables zero_MLTransform_InputRecordTables"
    by (rule subtype_attributes_outside_json
      [of plain example_Service_DeploymentController zero_Service_DeploymentController
          example_MLTransform_InputRecordTables zero_MLTransform_InputRecordTables,
       THEN conjunct2, THEN conjunct2, THEN conjunct2, THEN conjunct2, THEN conjunct1,
       rule_format, OF d2])
  have e1: "encode_Service_DeploymentController plain example_Service_DeploymentController
     = JObject [(''Type'', JString ''ECS'')]"
    by (simp add: encode_Service_DeploymentController_def example_Service_DeploymentController_def
        plain_def)
  have e2: "encode_MLTransform_InputRecordTables plain example_MLTransform_InputRecordTables
     = JObject [(''GlueTables'', JArray [JObject [(''TableName'', JString ''t'')]])]"
    by (simp add: encode_MLTransform_InputRecordTables_def
        example_MLTransform_InputRecordTables_def plain_def)
  have n1: "attributes_Service_DeploymentController example_Service_DeploymentController
     \<noteq> attributes_Service_DeploymentController zero_Service_DeploymentController"
    by (simp add: attributes_Service_DeploymentController_def
        example_Service_DeploymentController_def zero_Service_DeploymentController_def)
  have n2: "attributes_MLTransform_InputRecordTables example_MLTransform_InputRecordTables
     \<noteq> attributes_MLTransform_InputRecordTables zero_MLTransform_InputRecordTables"
    by (simp add: attributes_MLTransform_InputRecordTables_def
        example_MLTransform_InputRecordTables_def zero_MLTransform_InputRecordTables_def)
  show ?thesis using d1 d2 a1 a2 e1 e2 n1 n2 by (intro conjI)
qed

lemma first_error_Some: "first_error (Some e) b = Some e"
  by (simp add: first_error_def)

lemma first_error_eq_None: "first_error a b = None \<longleftrightarrow> a = None \<and> b = None"
  by (cases a) (simp_all add: first_error_def)

lemma decode_object_saved:
  "decode_object F d st ms (Some e) s = Inr (sv', s') \<Longrightarrow> sv' = Some e"
proof (induction ms arbitrary: s)
  case Nil
  then show ?case by simp
next
  case (Cons m ms)
  obtain k v where m: "m = (k, v)" by (cases m)
  show ?case
  proof (cases "lookup_field F k")
    case None
    with Cons.prems m have "decode_object F d st ms (Some e) s = Inr (sv', s')"
      by (simp add: first_error_Some split: if_splits)
    then show ?thesis by (rule Cons.IH)
  next
    case (Some f)
    with Cons.prems m obtain sv1 t where
      "decode_object F d st ms (Some e) t = Inr (sv', s')"
      by (auto simp: first_error_Some split: sum.splits)
    then show ?thesis by (rule Cons.IH)
  qed
qed

text \<open>A member that saves an error, or has no field under DisallowUnknownFields.\<close>

lemma decode_object_bad_member:
  assumes "(k, v) \<in> set ms"
    and "(lookup_field F k = None \<and> d) \<or>
         (\<exists>f. lookup_field F k = Some f \<and> (\<forall>t sv1 t'. st f v t = Inr (sv1, t') \<longrightarrow> sv1 \<noteq> None))"
  shows "decode_object F d st ms sv s \<noteq> Inr (None, s')"
  using assms(1)
proof (induction ms arbitrary: sv s)
  case Nil
  then show ?case by simp
next
  case (Cons m ms)
  obtain k1 v1 where m: "m = (k1, v1)" by (cases m)
  show ?case
  proof (cases "m = (k, v)")
    case True
    then have kv: "k1 = k" "v1 = v" using m by simp_all
    from assms(2) show ?thesis
    proof
      assume a: "lookup_field F k = None \<and> d"
      show ?thesis
      proof
        assume "decode_object F d st (m # ms) sv s = Inr (None, s')"
        with m kv a have "decode_object F d st ms (first_error sv (Some (UnknownField k))) s = Inr (None, s')"
          by simp
        moreover obtain e where "first_error sv (Some (UnknownField k)) = Some e"
          by (cases sv) (simp_all add: first_error_def)
        ultimately show False using decode_object_saved by fastforce
      qed
    next
      assume "\<exists>f. lookup_field F k = Some f \<and> (\<forall>t sv1 t'. st f v t = Inr (sv1, t') \<longrightarrow> sv1 \<noteq> None)"
      then obtain f where f: "lookup_field F k = Some f"
        and bad: "\<And>t sv1 t'. st f v t = Inr (sv1, t') \<Longrightarrow> sv1 \<noteq> None" by blast
      show ?thesis
      proof
        assume "decode_object F d st (m # ms) sv s = Inr (None, s')"
        with m kv f obtain sv1 t where
          st: "st f v s = Inr (sv1, t)" and
          rest: "decode_object F d st ms (first_error sv sv1) t = Inr (None, s')"
          by (auto split: sum.splits)
        from bad[OF st] obtain e1 where "sv1 = Some e1" by blast
        then obtain e where "first_error sv sv1 = Some e"
          by (cases sv) (simp_all add: first_error_def)
        with rest show False using decode_object_saved by fastforce
      qed
    qed
  next
    case False
    with Cons.prems have mem: "(k, v) \<in> set ms" by simp
    show ?thesis
    proof (cases "lookup_field F k1")
      case None
      then show ?thesis using Cons.IH[OF mem] m by simp
    next
      case (Some f1)
      show ?thesis
      proof (cases "st f1 v1 s")
        case (Inl e)
        then show ?thesis using m Some by simp
      next
        case (Inr p)
        obtain sv1 t where "p = (sv1, t)" by (cases p)
        then show ?thesis using Cons.IH[OF mem] m Some Inr by simp
      qed
    qed
  qed
qed

lemma decode_object_invariant:
  assumes "decode_object F d st ms sv s = Inr (sv', s')"
    and "P s"
    and "\<And>k v f t sv1 t'. (k, v) \<in> set ms \<Longrightarrow> lookup_field F k = Some f \<Longrightarrow>
           st f v t = Inr (sv1, t') \<Longrightarrow> P t \<Longrightarrow> P t'"
  shows "P s'"
  using assms
proof (induction ms arbitrary: sv s)
  case Nil
  then show ?case by simp
next
  case (Cons m ms)
  obtain k v where m: "m = (k, v)" by (cases m)
  have step: "\<And>k v f t sv1 t'. (k, v) \<in> set ms \<Longrightarrow> lookup_field F k = Some f \<Longrightarrow>
           st f v t = Inr (sv1, t') \<Longrightarrow> P t \<Longrightarrow> P t'"
    using Cons.prems(3) by (meson list.set_intros(2))
  show ?case
  proof (cases "lookup_field F k")
    case None
    with Cons.prems(1) m have
      "decode_object F d st ms (if d then first_error sv (Some (UnknownField k)) else sv) s
         = Inr (sv', s')"
      by simp
    then show ?thesis
    proof (rule Cons.IH)
      show "P s" by fact
    next
      fix k v f t sv1 t'
      assume "(k, v) \<in> set ms" "lookup_field F k = Some f" "st f v t = Inr (sv1, t')" "P t"
      then show "P t'" by (rule step)
    qed
  next
    case (Some f)
    with Cons.prems(1) m obtain sv1 t where
      st: "st f v s = Inr (sv1, t)" and
      rest: "decode_object F d st ms (first_error sv sv1) t = Inr (sv', s')"
      by (auto split: sum.splits)
    have "P t"
      using Cons.prems(3)[of k v f s sv1 t] m Some st Cons.prems(2) by simp
    show ?thesis
    proof (rule Cons.IH[OF rest])
      show "P t" by fact
    next
      fix k v f t sv1 t'
      assume "(k, v) \<in> set ms" "lookup_field F k = Some f" "st f v t = Inr (sv1, t')" "P t"
      then show "P t'" by (rule step)
    qed
  qed
qed

lemma decode_object_append:
  "decode_object F d st (ms1 @ ms2) sv s =
     (case decode_object F d st ms1 sv s of
        Inl e \<Rightarrow> Inl e
      | Inr (sv1, s1) \<Rightarrow> decode_object F d st ms2 sv1 s1)"
proof (induction ms1 arbitrary: sv s)
  case Nil
  then show ?case by simp
next
  case (Cons m ms1)
  obtain k v where m: "m = (k, v)" by (cases m)
  show ?case
    by (cases "lookup_field F k") (auto simp: m Cons.IH split: sum.splits)
qed

lemma UnmarshalJSON_Inr:
  "UnmarshalJSON cd r (JObject ms) = Inr r' \<longleftrightarrow>
     (\<exists>rs. decode_object res_fields True (store_res cd) ms None zero_res = Inr (None, rs)
        \<and> r' = assign_res rs r)"
  by (auto simp: UnmarshalJSON_def Decode_def split: sum.splits option.splits)


lemma decode_string_saved:
  "decode_string n cur v = Inr (sv1, x) \<Longrightarrow> v \<noteq> JNull \<Longrightarrow> \<forall>s. v \<noteq> JString s \<Longrightarrow> sv1 \<noteq> None"
  by (cases v) (auto simp: decode_string_def)

section \<open>The Type member\<close>

text \<open>
  Claim C3 says that an object without a Type string is rejected. The decoder has no
  such check: \<^verbatim>\<open>res.Type\<close> is read and never looked at. The object below has no Type
  member and is accepted.
\<close>

theorem Type_optional_counterexample:
  "UnmarshalJSON plain zero_plain (JObject [(''Properties'', JObject [])]) = Inr zero_plain"
  by code_simp

text \<open>
  Claim C3, amended. The Type member is optional: the empty object is accepted and leaves
  the receiver as it was. What the decoder does enforce is the kind of a Type member
  that is present: in every accepted object, the value of each member matched to the
  field \<^verbatim>\<open>Type\<close> is a string or null.
\<close>

theorem Type_member_string_or_null:
  "UnmarshalJSON cd r (JObject []) = Inr r
   \<and> (\<forall>ms r' k v. UnmarshalJSON cd r (JObject ms) = Inr r' \<longrightarrow> (k, v) \<in> set ms \<longrightarrow>
         lookup_field res_fields k = Some E_Type \<longrightarrow> v = JNull \<or> (\<exists>s. v = JString s))"
proof (intro conjI allI impI)
  show "UnmarshalJSON cd r (JObject []) = Inr r"
    by (simp add: UnmarshalJSON_def Decode_def assign_res_def zero_res_def)
next
  fix ms r' k v
  assume ok: "UnmarshalJSON cd r (JObject ms) = Inr r'"
    and mem: "(k, v) \<in> set ms"
    and f: "lookup_field res_fields k = Some E_Type"
  show "v = JNull \<or> (\<exists>s. v = JString s)"
  proof (rule ccontr)
    assume n: "\<not> (v = JNull \<or> (\<exists>s. v = JString s))"
    have bad: "\<forall>t sv1 t'. store_res cd E_Type v t = Inr (sv1, t') \<longrightarrow> sv1 \<noteq> None"
      using n by (auto dest!: stored_Inr decode_string_saved)
    from ok obtain rs where
      "decode_object res_fields True (store_res cd) ms None zero_res = Inr (None, rs)"
      unfolding UnmarshalJSON_Inr by blast
    moreover have "decode_object res_fields True (store_res cd) ms None zero_res \<noteq> Inr (None, rs)"
      by (rule decode_object_bad_member[OF mem]) (use f bad in blast)
    ultimately show False by contradiction
  qed
qed

theorem Type_member_string_or_null_witness:
  "UnmarshalJSON plain zero_plain (JObject [(''Type'', JString ''AWS::CodeDeploy::DeploymentGroup'')])
     = Inr zero_plain
   \<and> (''Type'', JString ''AWS::CodeDeploy::DeploymentGroup'')
       \<in> set [(''Type'', JString ''AWS::CodeDeploy::DeploymentGroup'')]
   \<and> lookup_field res_fields ''Type'' = Some E_Type
   \<and> (JString ''AWS::CodeDeploy::DeploymentGroup'' = JNull
       \<or> (\<exists>s. JString ''AWS::CodeDeploy::DeploymentGroup'' = JString s))"
proof -
  have a: "UnmarshalJSON plain zero_plain
      (JObject [(''Type'', JString ''AWS::CodeDeploy::DeploymentGroup'')]) = Inr zero_plain"
    by code_simp
  have b: "(''Type'', JString ''AWS::CodeDeploy::DeploymentGroup'')
       \<in> set [(''Type'', JString ''AWS::CodeDeploy::DeploymentGroup'')]"
    by simp
  have c: "lookup_field res_fields ''Type'' = Some E_Type"
    by (simp add: lookup_field_def res_fields_def)
  have d: "JString ''AWS::CodeDeploy::DeploymentGroup'' = JNull
       \<or> (\<exists>s. JString ''AWS::CodeDeploy::DeploymentGroup'' = JString s)"
    by (rule Type_member_string_or_null[of plain zero_plain, THEN conjunct2, rule_format, OF a b c])
  show ?thesis using a b c d by (intro conjI)
qed

section \<open>DependsOn\<close>






section \<open>Unknown fields\<close>







lemma set_value_attributes:
  "attributes_DeploymentGroup (set_value g x p) = attributes_DeploymentGroup p"
  by (cases g) (simp_all add: attributes_DeploymentGroup_def)

lemma set_sub_attributes:
  "attributes_DeploymentGroup (set_sub g x p) = attributes_DeploymentGroup p"
  by (cases g) (simp_all add: attributes_DeploymentGroup_def)

lemma set_slice_attributes:
  "attributes_DeploymentGroup (set_slice g x p) = attributes_DeploymentGroup p"
  by (cases g) (simp_all add: attributes_DeploymentGroup_def)

lemma store_property_attributes:
  "store_property cd f v p = Inr (sv, p') \<Longrightarrow>
   attributes_DeploymentGroup p' = attributes_DeploymentGroup p"
  by (cases f)
     (auto dest!: stored_Inr simp: set_value_attributes set_sub_attributes set_slice_attributes)

lemma decode_Properties_attributes:
  assumes "decode_Properties cd cur v = Inr (sv, p)"
  shows "attributes_DeploymentGroup p
           = attributes_DeploymentGroup (case cur of None \<Rightarrow> zero_DeploymentGroup | Some q \<Rightarrow> q)"
proof (cases v)
  case (JObject ms)
  with assms have d: "decode_object DeploymentGroup_fields True (store_property cd) ms None
      (case cur of None \<Rightarrow> zero_DeploymentGroup | Some q \<Rightarrow> q) = Inr (sv, p)"
    by (simp add: decode_Properties_def)
  show ?thesis
    by (rule decode_object_frame[OF d]) (rule store_property_attributes)
qed (use assms in \<open>auto simp: decode_Properties_def\<close>)

lemma attributes_zero:
  "attributes_DeploymentGroup zero_DeploymentGroup = ([], [], None, None, [])"
  by (simp add: attributes_DeploymentGroup_def zero_DeploymentGroup_def)

lemma store_res_clean:
  assumes "store_res cd f v rs = Inr (sv, rs')" and "res_clean rs"
  shows "res_clean rs'"
proof (cases f)
  case E_Properties
  with assms(1) obtain x where
    d: "decode_pointer (decode_Properties cd) (res_Properties rs) v = Inr (sv, x)"
    and rs': "rs' = rs\<lparr>res_Properties := x\<rparr>"
    by (auto dest!: stored_Inr)
  show ?thesis
  proof (cases x)
    case None
    then show ?thesis using rs' by (simp add: res_clean_def)
  next
    case (Some p)
    with d obtain sv1 where "decode_Properties cd (res_Properties rs) v = Inr (sv1, p)"
      by (auto simp: decode_pointer_def split: if_splits sum.splits)
    from decode_Properties_attributes[OF this] assms(2)
    have "attributes_DeploymentGroup p = ([], [], None, None, [])"
      by (cases "res_Properties rs") (simp_all add: res_clean_def attributes_zero)
    then show ?thesis using rs' Some by (simp add: res_clean_def)
  qed
qed (use assms in \<open>auto dest!: stored_Inr simp: res_clean_def\<close>)

lemma decode_res_clean:
  assumes "decode_object res_fields True (store_res cd) ms None zero_res = Inr (sv, rs)"
  shows "res_clean rs"
proof (rule decode_object_invariant[OF assms, where P = res_clean])
  show "res_clean zero_res" by (simp add: res_clean_def zero_res_def)
next
  fix k v f t sv1 t'
  assume "store_res cd f v t = Inr (sv1, t')" "res_clean t"
  then show "res_clean t'" by (rule store_res_clean)
qed

lemma given_stringsI:
  "(k, JString s) \<in> set ms \<Longrightarrow> lookup_field res_fields k = Some f \<Longrightarrow> s \<in> set (given_strings ms f)"
  by (force simp: given_strings_def)

lemma decode_string_cases:
  "decode_string n cur v = Inr (sv, x) \<Longrightarrow> x = cur \<or> v = JString x"
  by (cases v) (auto simp: decode_string_def)

lemma res_DeletionPolicy_given:
  assumes "decode_object res_fields True (store_res cd) ms None zero_res = Inr (sv, rs)"
  shows "res_DeletionPolicy rs = [] \<or> res_DeletionPolicy rs \<in> set (given_strings ms E_DeletionPolicy)"
proof (rule decode_object_invariant[OF assms,
      where P = "\<lambda>t. res_DeletionPolicy t = [] \<or> res_DeletionPolicy t \<in> set (given_strings ms E_DeletionPolicy)"])
  show "res_DeletionPolicy zero_res = [] \<or> res_DeletionPolicy zero_res \<in> set (given_strings ms E_DeletionPolicy)"
    by (simp add: zero_res_def)
next
  fix k v f t sv1 t'
  assume mem: "(k, v) \<in> set ms" and l: "lookup_field res_fields k = Some f"
    and st: "store_res cd f v t = Inr (sv1, t')"
    and P: "res_DeletionPolicy t = [] \<or> res_DeletionPolicy t \<in> set (given_strings ms E_DeletionPolicy)"
  show "res_DeletionPolicy t' = [] \<or> res_DeletionPolicy t' \<in> set (given_strings ms E_DeletionPolicy)"
  proof (cases f)
    case E_DeletionPolicy
    with st obtain x where d: "decode_string ''DeletionPolicy'' (res_DeletionPolicy t) v = Inr (sv1, x)"
      and t': "t' = t\<lparr>res_DeletionPolicy := x\<rparr>"
      by (auto dest!: stored_Inr)
    from decode_string_cases[OF d] show ?thesis
    proof
      assume "x = res_DeletionPolicy t"
      then show ?thesis using P t' by simp
    next
      assume "v = JString x"
      then have "x \<in> set (given_strings ms E_DeletionPolicy)"
        using mem l E_DeletionPolicy by (simp add: given_stringsI)
      then show ?thesis using t' by simp
    qed
  qed (use st P in \<open>auto dest!: stored_Inr\<close>)
qed

lemma res_UpdateReplacePolicy_given:
  assumes "decode_object res_fields True (store_res cd) ms None zero_res = Inr (sv, rs)"
  shows "res_UpdateReplacePolicy rs = []
     \<or> res_UpdateReplacePolicy rs \<in> set (given_strings ms E_UpdateReplacePolicy)"
proof (rule decode_object_invariant[OF assms,
      where P = "\<lambda>t. res_UpdateReplacePolicy t = []
         \<or> res_UpdateReplacePolicy t \<in> set (given_strings ms E_UpdateReplacePolicy)"])
  show "res_UpdateReplacePolicy zero_res = []
     \<or> res_UpdateReplacePolicy zero_res \<in> set (given_strings ms E_UpdateReplacePolicy)"
    by (simp add: zero_res_def)
next
  fix k v f t sv1 t'
  assume mem: "(k, v) \<in> set ms" and l: "lookup_field res_fields k = Some f"
    and st: "store_res cd f v t = Inr (sv1, t')"
    and P: "res_UpdateReplacePolicy t = []
       \<or> res_UpdateReplacePolicy t \<in> set (given_strings ms E_UpdateReplacePolicy)"
  show "res_UpdateReplacePolicy t' = []
       \<or> res_UpdateReplacePolicy t' \<in> set (given_strings ms E_UpdateReplacePolicy)"
  proof (cases f)
    case E_UpdateReplacePolicy
    with st obtain x where
      d: "decode_string ''UpdateReplacePolicy'' (res_UpdateReplacePolicy t) v = Inr (sv1, x)"
      and t': "t' = t\<lparr>res_UpdateReplacePolicy := x\<rparr>"
      by (auto dest!: stored_Inr)
    from decode_string_cases[OF d] show ?thesis
    proof
      assume "x = res_UpdateReplacePolicy t"
      then show ?thesis using P t' by simp
    next
      assume "v = JString x"
      then have "x \<in> set (given_strings ms E_UpdateReplacePolicy)"
        using mem l E_UpdateReplacePolicy by (simp add: given_stringsI)
      then show ?thesis using t' by simp
    qed
  qed (use st P in \<open>auto dest!: stored_Inr\<close>)
qed

text \<open>The attributes after the assignments of \<^verbatim>\<open>UnmarshalJSON\<close>.\<close>

lemma assign_res_attributes:
  "attributes_DeploymentGroup (assign_res rs r) =
     (let a = attributes_DeploymentGroup (case res_Properties rs of None \<Rightarrow> r | Some p \<Rightarrow> p) in
      (if res_DeletionPolicy rs \<noteq> [] then res_DeletionPolicy rs else fst a,
       if res_UpdateReplacePolicy rs \<noteq> [] then res_UpdateReplacePolicy rs else fst (snd a),
       case res_DependsOn rs of None \<Rightarrow> fst (snd (snd a)) | Some ds \<Rightarrow> Some ds,
       case res_Metadata rs of None \<Rightarrow> fst (snd (snd (snd a))) | Some m \<Rightarrow> Some m,
       if res_Condition rs \<noteq> [] then res_Condition rs else snd (snd (snd (snd a)))))"
  by (simp add: assign_res_def attributes_DeploymentGroup_def Let_def split: option.splits)

section \<open>The policies\<close>

text \<open>
  Claim C8 says that decode never stores a policy string outside Delete, Retain,
  Snapshot. The decoder reads both policies as plain strings and converts them without
  a check: the string Foo is stored.
\<close>

theorem policy_not_validated_counterexample:
  "UnmarshalJSON plain zero_plain (JObject [(''DeletionPolicy'', JString ''Foo'')])
     = Inr (zero_plain\<lparr>AWSCloudFormationDeletionPolicy := ''Foo''\<rparr>)
   \<and> \<not> valid_policy ''Foo''"
  by code_simp

text \<open>
  Claim C8, amended. After a decode that succeeds, each of DeletionPolicy and
  UpdateReplacePolicy is the value the receiver held before, or empty, or a string that
  the document gives for that field, stored as it is; no check against the enumerated
  values takes place. So the policy is one of the enumerated values or empty whenever
  the receiver's policy and the strings of the document are.
\<close>

theorem policy_stored_verbatim:
  assumes "UnmarshalJSON cd r (JObject ms) = Inr r'"
  shows "(AWSCloudFormationDeletionPolicy r' = AWSCloudFormationDeletionPolicy r
          \<or> AWSCloudFormationDeletionPolicy r' = []
          \<or> AWSCloudFormationDeletionPolicy r' \<in> set (given_strings ms E_DeletionPolicy))
       \<and> (AWSCloudFormationUpdateReplacePolicy r' = AWSCloudFormationUpdateReplacePolicy r
          \<or> AWSCloudFormationUpdateReplacePolicy r' = []
          \<or> AWSCloudFormationUpdateReplacePolicy r' \<in> set (given_strings ms E_UpdateReplacePolicy))
       \<and> (valid_policy (AWSCloudFormationDeletionPolicy r) \<longrightarrow>
            list_all valid_policy (given_strings ms E_DeletionPolicy) \<longrightarrow>
            valid_policy (AWSCloudFormationDeletionPolicy r'))
       \<and> (valid_policy (AWSCloudFormationUpdateReplacePolicy r) \<longrightarrow>
            list_all valid_policy (given_strings ms E_UpdateReplacePolicy) \<longrightarrow>
            valid_policy (AWSCloudFormationUpdateReplacePolicy r'))"
proof -
  from assms obtain rs where
    d: "decode_object res_fields True (store_res cd) ms None zero_res = Inr (None, rs)"
    and r': "r' = assign_res rs r"
    unfolding UnmarshalJSON_Inr by blast
  have clean: "res_clean rs" by (rule decode_res_clean[OF d])
  have a: "attributes_DeploymentGroup (case res_Properties rs of None \<Rightarrow> r | Some p \<Rightarrow> p)
      = attributes_DeploymentGroup r
    \<or> attributes_DeploymentGroup (case res_Properties rs of None \<Rightarrow> r | Some p \<Rightarrow> p)
      = ([], [], None, None, [])"
    using clean by (cases "res_Properties rs") (simp_all add: res_clean_def)
  have dp: "AWSCloudFormationDeletionPolicy r' = AWSCloudFormationDeletionPolicy r
          \<or> AWSCloudFormationDeletionPolicy r' = []
          \<or> AWSCloudFormationDeletionPolicy r' \<in> set (given_strings ms E_DeletionPolicy)"
  proof (cases "res_DeletionPolicy rs = []")
    case True
    have "AWSCloudFormationDeletionPolicy r'
        = fst (attributes_DeploymentGroup (case res_Properties rs of None \<Rightarrow> r | Some p \<Rightarrow> p))"
      using True r' assign_res_attributes[of rs r]
      by (simp add: Let_def attributes_DeploymentGroup_def)
    with a show ?thesis by (auto simp: attributes_DeploymentGroup_def)
  next
    case False
    then have "AWSCloudFormationDeletionPolicy r' = res_DeletionPolicy rs"
      using r' assign_res_attributes[of rs r]
      by (simp add: Let_def attributes_DeploymentGroup_def)
    with False res_DeletionPolicy_given[OF d] show ?thesis by simp
  qed
  have up: "AWSCloudFormationUpdateReplacePolicy r' = AWSCloudFormationUpdateReplacePolicy r
          \<or> AWSCloudFormationUpdateReplacePolicy r' = []
          \<or> AWSCloudFormationUpdateReplacePolicy r' \<in> set (given_strings ms E_UpdateReplacePolicy)"
  proof (cases "res_UpdateReplacePolicy rs = []")
    case True
    have "AWSCloudFormationUpdateReplacePolicy r'
        = fst (snd (attributes_DeploymentGroup (case res_Properties rs of None \<Rightarrow> r | Some p \<Rightarrow> p)))"
      using True r' assign_res_attributes[of rs r]
      by (simp add: Let_def attributes_DeploymentGroup_def)
    with a show ?thesis by (auto simp: attributes_DeploymentGroup_def)
  next
    case False
    then have "AWSCloudFormationUpdateReplacePolicy r' = res_UpdateReplacePolicy rs"
      using r' assign_res_attributes[of rs r]
      by (simp add: Let_def attributes_DeploymentGroup_def)
    with False res_UpdateReplacePolicy_given[OF d] show ?thesis by simp
  qed
  have v1: "valid_policy (AWSCloudFormationDeletionPolicy r) \<longrightarrow>
            list_all valid_policy (given_strings ms E_DeletionPolicy) \<longrightarrow>
            valid_policy (AWSCloudFormationDeletionPolicy r')"
    using dp by (auto simp: list_all_iff valid_policy_def)
  have v2: "valid_policy (AWSCloudFormationUpdateReplacePolicy r) \<longrightarrow>
            list_all valid_policy (given_strings ms E_UpdateReplacePolicy) \<longrightarrow>
            valid_policy (AWSCloudFormationUpdateReplacePolicy r')"
    using up by (auto simp: list_all_iff valid_policy_def)
  show ?thesis using dp up v1 v2 by (intro conjI)
qed

theorem policy_stored_verbatim_witness:
  "UnmarshalJSON plain zero_plain
     (JObject [(''DeletionPolicy'', JString ''Retain''), (''UpdateReplacePolicy'', JString ''Snapshot'')])
     = Inr (zero_plain\<lparr>AWSCloudFormationDeletionPolicy := ''Retain'',
                       AWSCloudFormationUpdateReplacePolicy := ''Snapshot''\<rparr>)
   \<and> valid_policy (AWSCloudFormationDeletionPolicy zero_plain)
   \<and> list_all valid_policy
       (given_strings [(''DeletionPolicy'', JString ''Retain''),
                       (''UpdateReplacePolicy'', JString ''Snapshot'')] E_DeletionPolicy)
   \<and> valid_policy (AWSCloudFormationUpdateReplacePolicy zero_plain)
   \<and> list_all valid_policy
       (given_strings [(''DeletionPolicy'', JString ''Retain''),
                       (''UpdateReplacePolicy'', JString ''Snapshot'')] E_UpdateReplacePolicy)
   \<and> valid_policy (AWSCloudFormationDeletionPolicy
        (zero_plain\<lparr>AWSCloudFormationDeletionPolicy := ''Retain'',
                     AWSCloudFormationUpdateReplacePolicy := ''Snapshot''\<rparr>))
   \<and> valid_policy (AWSCloudFormationUpdateReplacePolicy
        (zero_plain\<lparr>AWSCloudFormationDeletionPolicy := ''Retain'',
                     AWSCloudFormationUpdateReplacePolicy := ''Snapshot''\<rparr>))"
proof -
  have a: "UnmarshalJSON plain zero_plain
     (JObject [(''DeletionPolicy'', JString ''Retain''), (''UpdateReplacePolicy'', JString ''Snapshot'')])
     = Inr (zero_plain\<lparr>AWSCloudFormationDeletionPolicy := ''Retain'',
                       AWSCloudFormationUpdateReplacePolicy := ''Snapshot''\<rparr>)"
    by code_simp
  have b: "valid_policy (AWSCloudFormationDeletionPolicy zero_plain)"
    by code_simp
  have c: "list_all valid_policy
       (given_strings [(''DeletionPolicy'', JString ''Retain''),
                       (''UpdateReplacePolicy'', JString ''Snapshot'')] E_DeletionPolicy)"
    by code_simp
  have d: "valid_policy (AWSCloudFormationUpdateReplacePolicy zero_plain)"
    by code_simp
  have e: "list_all valid_policy
       (given_strings [(''DeletionPolicy'', JString ''Retain''),
                       (''UpdateReplacePolicy'', JString ''Snapshot'')] E_UpdateReplacePolicy)"
    by code_simp
  note t = policy_stored_verbatim[OF a]
  have f: "valid_policy (AWSCloudFormationDeletionPolicy
        (zero_plain\<lparr>AWSCloudFormationDeletionPolicy := ''Retain'',
                     AWSCloudFormationUpdateReplacePolicy := ''Snapshot''\<rparr>))"
    by (rule t[THEN conjunct2, THEN conjunct2, THEN conjunct1, rule_format, OF b c])
  have g: "valid_policy (AWSCloudFormationUpdateReplacePolicy
        (zero_plain\<lparr>AWSCloudFormationDeletionPolicy := ''Retain'',
                     AWSCloudFormationUpdateReplacePolicy := ''Snapshot''\<rparr>))"
    by (rule t[THEN conjunct2, THEN conjunct2, THEN conjunct2, rule_format, OF d e])
  show ?thesis using a b c d e f g by (intro conjI)
qed

section \<open>What a decode leaves of the receiver\<close>

lemma not_has_member:
  "\<not> has_member ms f \<Longrightarrow> (k, v) \<in> set ms \<Longrightarrow> lookup_field res_fields k \<noteq> Some f"
  by (force simp: has_member_def list_ex_iff)

lemma res_frame:
  assumes d: "decode_object res_fields True (store_res cd) ms sv rs0 = Inr (sv', rs)"
  shows "\<not> has_member ms E_Properties \<Longrightarrow> res_Properties rs = res_Properties rs0"
    and "\<not> has_member ms E_DependsOn \<Longrightarrow> res_DependsOn rs = res_DependsOn rs0"
    and "\<not> has_member ms E_Metadata \<Longrightarrow> res_Metadata rs = res_Metadata rs0"
    and "\<not> has_member ms E_DeletionPolicy \<Longrightarrow> res_DeletionPolicy rs = res_DeletionPolicy rs0"
    and "\<not> has_member ms E_UpdateReplacePolicy \<Longrightarrow>
           res_UpdateReplacePolicy rs = res_UpdateReplacePolicy rs0"
    and "\<not> has_member ms E_Condition \<Longrightarrow> res_Condition rs = res_Condition rs0"
proof -
  { fix f :: efield and proj :: "('a, 'b) res \<Rightarrow> 'c"
    assume n: "\<not> has_member ms f"
      and other: "\<And>g v t sv1 t'. g \<noteq> f \<Longrightarrow> store_res cd g v t = Inr (sv1, t') \<Longrightarrow> proj t' = proj t"
    have "proj rs = proj rs0"
    proof (rule decode_object_frame[OF d])
      fix k v g t sv1 t'
      assume "(k, v) \<in> set ms" "lookup_field res_fields k = Some g"
        and st: "store_res cd g v t = Inr (sv1, t')"
      then have "g \<noteq> f" using not_has_member[OF n] by blast
      then show "proj t' = proj t" using st by (rule other)
    qed }
  note frame = this
  show "\<not> has_member ms E_Properties \<Longrightarrow> res_Properties rs = res_Properties rs0"
    by (erule frame) (case_tac g; auto dest!: stored_Inr)
  show "\<not> has_member ms E_DependsOn \<Longrightarrow> res_DependsOn rs = res_DependsOn rs0"
    by (erule frame) (case_tac g; auto dest!: stored_Inr)
  show "\<not> has_member ms E_Metadata \<Longrightarrow> res_Metadata rs = res_Metadata rs0"
    by (erule frame) (case_tac g; auto dest!: stored_Inr)
  show "\<not> has_member ms E_DeletionPolicy \<Longrightarrow> res_DeletionPolicy rs = res_DeletionPolicy rs0"
    by (erule frame) (case_tac g; auto dest!: stored_Inr)
  show "\<not> has_member ms E_UpdateReplacePolicy \<Longrightarrow>
           res_UpdateReplacePolicy rs = res_UpdateReplacePolicy rs0"
    by (erule frame) (case_tac g; auto dest!: stored_Inr)
  show "\<not> has_member ms E_Condition \<Longrightarrow> res_Condition rs = res_Condition rs0"
    by (erule frame) (case_tac g; auto dest!: stored_Inr)
qed

lemma decode_pointer_not_null:
  "decode_pointer dec cur v = Inr (sv, x) \<Longrightarrow> v \<noteq> JNull \<Longrightarrow> x \<noteq> None"
  by (auto simp: decode_pointer_def split: sum.splits)

lemma store_res_Properties_kept:
  "store_res cd g v t = Inr (sv1, t') \<Longrightarrow> g \<noteq> E_Properties \<Longrightarrow> res_Properties t' = res_Properties t"
  by (cases g) (auto dest!: stored_Inr)

lemma res_Properties_present:
  assumes "decode_object res_fields True (store_res cd) ms sv rs0 = Inr (sv', rs)"
    and "list_all (\<lambda>m. lookup_field res_fields (fst m) \<noteq> Some E_Properties \<or> snd m \<noteq> JNull) ms"
    and "res_Properties rs0 \<noteq> None \<or> has_member ms E_Properties"
  shows "res_Properties rs \<noteq> None"
  using assms
proof (induction ms arbitrary: sv rs0)
  case Nil
  then show ?case by (simp add: has_member_def)
next
  case (Cons m ms)
  obtain k v where m: "m = (k, v)" by (cases m)
  from Cons.prems(2) have all: "list_all (\<lambda>m. lookup_field res_fields (fst m) \<noteq> Some E_Properties \<or> snd m \<noteq> JNull) ms"
    and here: "lookup_field res_fields k \<noteq> Some E_Properties \<or> v \<noteq> JNull"
    using m by simp_all
  show ?case
  proof (cases "lookup_field res_fields k")
    case None
    with Cons.prems(1) m have d: "decode_object res_fields True (store_res cd) ms
        (first_error sv (Some (UnknownField k))) rs0 = Inr (sv', rs)" by simp
    have "res_Properties rs0 \<noteq> None \<or> has_member ms E_Properties"
      using Cons.prems(3) m None by (simp add: has_member_def)
    then show ?thesis by (rule Cons.IH[OF d all])
  next
    case (Some g)
    with Cons.prems(1) m obtain sv1 t where
      st: "store_res cd g v rs0 = Inr (sv1, t)" and
      d: "decode_object res_fields True (store_res cd) ms (first_error sv sv1) t = Inr (sv', rs)"
      by (auto split: sum.splits)
    have "res_Properties t \<noteq> None \<or> has_member ms E_Properties"
    proof (cases "g = E_Properties")
      case True
      with here Some have "v \<noteq> JNull" by simp
      moreover from st True obtain x where
        "decode_pointer (decode_Properties cd) (res_Properties rs0) v = Inr (sv1, x)"
        and "t = rs0\<lparr>res_Properties := x\<rparr>"
        by (auto dest!: stored_Inr)
      ultimately show ?thesis using decode_pointer_not_null by fastforce
    next
      case False
      then have "res_Properties t = res_Properties rs0"
        using st by (rule store_res_Properties_kept[rotated])
      moreover have "has_member (m # ms) E_Properties = has_member ms E_Properties"
        using m Some False by (simp add: has_member_def)
      ultimately show ?thesis using Cons.prems(3) by simp
    qed
    then show ?thesis by (rule Cons.IH[OF d all])
  qed
qed

lemma assign_res_properties:
  "properties_of (assign_res rs r)
     = properties_of (case res_Properties rs of None \<Rightarrow> r | Some p \<Rightarrow> p)"
  by (simp add: assign_res_def properties_of_def Let_def split: option.splits)

text \<open>
  Claim C9 says that an attribute that the input omits keeps the value the receiver held.
  That fails when the input has Properties: \<^verbatim>\<open>*r = DeploymentGroup(*res.Properties)\<close>
  replaces the whole receiver, attributes included, by the decoded struct, whose
  attributes are zero.
\<close>

theorem attributes_reset_by_Properties_counterexample:
  "\<not> has_member [(''Properties'', JObject [])] E_DependsOn
   \<and> \<not> has_member [(''Properties'', JObject [])] E_DeletionPolicy
   \<and> AWSCloudFormationDependsOn held_plain = Some [''A'']
   \<and> AWSCloudFormationDeletionPolicy held_plain = ''Retain''
   \<and> UnmarshalJSON plain held_plain (JObject [(''Properties'', JObject [])]) = Inr zero_plain
   \<and> AWSCloudFormationDependsOn zero_plain = None
   \<and> AWSCloudFormationDeletionPolicy zero_plain = []"
  by code_simp

text \<open>
  Claim C9, amended. When the input has no Properties member, a decode that succeeds
  leaves the property fields of the receiver as they were, and leaves each of the five
  attributes as it was when the input has no member for it. When the input gives
  Properties, the whole receiver is replaced first: each attribute for which the input
  has no member is reset to its zero value.
\<close>

theorem receiver_kept_without_Properties:
  assumes "UnmarshalJSON cd r (JObject ms) = Inr r'"
  shows "(\<not> has_member ms E_Properties \<longrightarrow>
            properties_of r' = properties_of r
          \<and> (\<not> has_member ms E_DependsOn \<longrightarrow>
                AWSCloudFormationDependsOn r' = AWSCloudFormationDependsOn r)
          \<and> (\<not> has_member ms E_Metadata \<longrightarrow>
                AWSCloudFormationMetadata r' = AWSCloudFormationMetadata r)
          \<and> (\<not> has_member ms E_DeletionPolicy \<longrightarrow>
                AWSCloudFormationDeletionPolicy r' = AWSCloudFormationDeletionPolicy r)
          \<and> (\<not> has_member ms E_UpdateReplacePolicy \<longrightarrow>
                AWSCloudFormationUpdateReplacePolicy r' = AWSCloudFormationUpdateReplacePolicy r)
          \<and> (\<not> has_member ms E_Condition \<longrightarrow>
                AWSCloudFormationCondition r' = AWSCloudFormationCondition r))
       \<and> (properties_given ms \<longrightarrow>
            (\<not> has_member ms E_DependsOn \<longrightarrow> AWSCloudFormationDependsOn r' = None)
          \<and> (\<not> has_member ms E_Metadata \<longrightarrow> AWSCloudFormationMetadata r' = None)
          \<and> (\<not> has_member ms E_DeletionPolicy \<longrightarrow> AWSCloudFormationDeletionPolicy r' = [])
          \<and> (\<not> has_member ms E_UpdateReplacePolicy \<longrightarrow>
                AWSCloudFormationUpdateReplacePolicy r' = [])
          \<and> (\<not> has_member ms E_Condition \<longrightarrow> AWSCloudFormationCondition r' = []))"
proof -
  from assms obtain rs where
    d: "decode_object res_fields True (store_res cd) ms None zero_res = Inr (None, rs)"
    and r': "r' = assign_res rs r"
    unfolding UnmarshalJSON_Inr by blast
  note fr = res_frame[OF d, unfolded zero_res_def, simplified]
  define r1 where "r1 = (case res_Properties rs of None \<Rightarrow> r | Some p \<Rightarrow> p)"
  have att: "attributes_DeploymentGroup r' =
      (if res_DeletionPolicy rs \<noteq> [] then res_DeletionPolicy rs else AWSCloudFormationDeletionPolicy r1,
       if res_UpdateReplacePolicy rs \<noteq> [] then res_UpdateReplacePolicy rs
       else AWSCloudFormationUpdateReplacePolicy r1,
       case res_DependsOn rs of None \<Rightarrow> AWSCloudFormationDependsOn r1 | Some ds \<Rightarrow> Some ds,
       case res_Metadata rs of None \<Rightarrow> AWSCloudFormationMetadata r1 | Some m \<Rightarrow> Some m,
       if res_Condition rs \<noteq> [] then res_Condition rs else AWSCloudFormationCondition r1)"
    unfolding r' assign_res_attributes r1_def
    by (simp add: Let_def attributes_DeploymentGroup_def cong: option.case_cong)
  have omitted:
    "\<not> has_member ms E_DependsOn \<Longrightarrow> AWSCloudFormationDependsOn r' = AWSCloudFormationDependsOn r1"
    "\<not> has_member ms E_Metadata \<Longrightarrow> AWSCloudFormationMetadata r' = AWSCloudFormationMetadata r1"
    "\<not> has_member ms E_DeletionPolicy \<Longrightarrow>
       AWSCloudFormationDeletionPolicy r' = AWSCloudFormationDeletionPolicy r1"
    "\<not> has_member ms E_UpdateReplacePolicy \<Longrightarrow>
       AWSCloudFormationUpdateReplacePolicy r' = AWSCloudFormationUpdateReplacePolicy r1"
    "\<not> has_member ms E_Condition \<Longrightarrow> AWSCloudFormationCondition r' = AWSCloudFormationCondition r1"
    using att by (simp_all add: attributes_DeploymentGroup_def fr)
  have part1: "\<not> has_member ms E_Properties \<longrightarrow>
            properties_of r' = properties_of r
          \<and> (\<not> has_member ms E_DependsOn \<longrightarrow>
                AWSCloudFormationDependsOn r' = AWSCloudFormationDependsOn r)
          \<and> (\<not> has_member ms E_Metadata \<longrightarrow>
                AWSCloudFormationMetadata r' = AWSCloudFormationMetadata r)
          \<and> (\<not> has_member ms E_DeletionPolicy \<longrightarrow>
                AWSCloudFormationDeletionPolicy r' = AWSCloudFormationDeletionPolicy r)
          \<and> (\<not> has_member ms E_UpdateReplacePolicy \<longrightarrow>
                AWSCloudFormationUpdateReplacePolicy r' = AWSCloudFormationUpdateReplacePolicy r)
          \<and> (\<not> has_member ms E_Condition \<longrightarrow>
                AWSCloudFormationCondition r' = AWSCloudFormationCondition r)"
  proof
    assume n: "\<not> has_member ms E_Properties"
    then have "res_Properties rs = None" using fr(1) by simp
    then have r1: "r1 = r" by (simp add: r1_def)
    have "properties_of r' = properties_of r"
      unfolding r' assign_res_properties using \<open>res_Properties rs = None\<close> by simp
    then show "properties_of r' = properties_of r
          \<and> (\<not> has_member ms E_DependsOn \<longrightarrow>
                AWSCloudFormationDependsOn r' = AWSCloudFormationDependsOn r)
          \<and> (\<not> has_member ms E_Metadata \<longrightarrow>
                AWSCloudFormationMetadata r' = AWSCloudFormationMetadata r)
          \<and> (\<not> has_member ms E_DeletionPolicy \<longrightarrow>
                AWSCloudFormationDeletionPolicy r' = AWSCloudFormationDeletionPolicy r)
          \<and> (\<not> has_member ms E_UpdateReplacePolicy \<longrightarrow>
                AWSCloudFormationUpdateReplacePolicy r' = AWSCloudFormationUpdateReplacePolicy r)
          \<and> (\<not> has_member ms E_Condition \<longrightarrow>
                AWSCloudFormationCondition r' = AWSCloudFormationCondition r)"
      using omitted r1 by simp
  qed
  have part2: "properties_given ms \<longrightarrow>
            (\<not> has_member ms E_DependsOn \<longrightarrow> AWSCloudFormationDependsOn r' = None)
          \<and> (\<not> has_member ms E_Metadata \<longrightarrow> AWSCloudFormationMetadata r' = None)
          \<and> (\<not> has_member ms E_DeletionPolicy \<longrightarrow> AWSCloudFormationDeletionPolicy r' = [])
          \<and> (\<not> has_member ms E_UpdateReplacePolicy \<longrightarrow>
                AWSCloudFormationUpdateReplacePolicy r' = [])
          \<and> (\<not> has_member ms E_Condition \<longrightarrow> AWSCloudFormationCondition r' = [])"
  proof
    assume g: "properties_given ms"
    have "res_Properties rs \<noteq> None"
      by (rule res_Properties_present[OF d]) (use g in \<open>simp_all add: properties_given_def\<close>)
    then obtain p where p: "res_Properties rs = Some p" by blast
    have "res_clean rs" by (rule decode_res_clean[OF d])
    then have "attributes_DeploymentGroup r1 = ([], [], None, None, [])"
      using p by (simp add: res_clean_def r1_def)
    then have "AWSCloudFormationDependsOn r1 = None" "AWSCloudFormationMetadata r1 = None"
      "AWSCloudFormationDeletionPolicy r1 = []" "AWSCloudFormationUpdateReplacePolicy r1 = []"
      "AWSCloudFormationCondition r1 = []"
      by (simp_all add: attributes_DeploymentGroup_def)
    then show "(\<not> has_member ms E_DependsOn \<longrightarrow> AWSCloudFormationDependsOn r' = None)
          \<and> (\<not> has_member ms E_Metadata \<longrightarrow> AWSCloudFormationMetadata r' = None)
          \<and> (\<not> has_member ms E_DeletionPolicy \<longrightarrow> AWSCloudFormationDeletionPolicy r' = [])
          \<and> (\<not> has_member ms E_UpdateReplacePolicy \<longrightarrow>
                AWSCloudFormationUpdateReplacePolicy r' = [])
          \<and> (\<not> has_member ms E_Condition \<longrightarrow> AWSCloudFormationCondition r' = [])"
      using omitted by simp
  qed
  show ?thesis using part1 part2 by (rule conjI)
qed

theorem receiver_kept_without_Properties_witness:
  "UnmarshalJSON plain held_plain (JObject [(''Condition'', JString ''IsTest'')])
     = Inr (held_plain\<lparr>AWSCloudFormationCondition := ''IsTest''\<rparr>)
   \<and> \<not> has_member [(''Condition'', JString ''IsTest'')] E_Properties
   \<and> \<not> has_member [(''Condition'', JString ''IsTest'')] E_DependsOn
   \<and> properties_of (held_plain\<lparr>AWSCloudFormationCondition := ''IsTest''\<rparr>)
       = properties_of held_plain
   \<and> AWSCloudFormationDependsOn (held_plain\<lparr>AWSCloudFormationCondition := ''IsTest''\<rparr>)
       = AWSCloudFormationDependsOn held_plain
   \<and> UnmarshalJSON plain held_plain
        (JObject [(''Properties'', JObject []), (''Condition'', JString ''IsTest'')])
     = Inr (zero_plain\<lparr>AWSCloudFormationCondition := ''IsTest''\<rparr>)
   \<and> properties_given [(''Properties'', JObject []), (''Condition'', JString ''IsTest'')]
   \<and> \<not> has_member [(''Properties'', JObject []), (''Condition'', JString ''IsTest'')]
         E_DependsOn
   \<and> AWSCloudFormationDependsOn (zero_plain\<lparr>AWSCloudFormationCondition := ''IsTest''\<rparr>)
       = None"
proof -
  have d1: "UnmarshalJSON plain held_plain (JObject [(''Condition'', JString ''IsTest'')])
     = Inr (held_plain\<lparr>AWSCloudFormationCondition := ''IsTest''\<rparr>)"
    by code_simp
  have n1: "\<not> has_member [(''Condition'', JString ''IsTest'')] E_Properties"
    by code_simp
  have n2: "\<not> has_member [(''Condition'', JString ''IsTest'')] E_DependsOn"
    by code_simp
  have d2: "UnmarshalJSON plain held_plain
        (JObject [(''Properties'', JObject []), (''Condition'', JString ''IsTest'')])
     = Inr (zero_plain\<lparr>AWSCloudFormationCondition := ''IsTest''\<rparr>)"
    by code_simp
  have g: "properties_given [(''Properties'', JObject []), (''Condition'', JString ''IsTest'')]"
    by code_simp
  have n3: "\<not> has_member [(''Properties'', JObject []), (''Condition'', JString ''IsTest'')]
         E_DependsOn"
    by code_simp
  note k1 = receiver_kept_without_Properties[OF d1, THEN conjunct1, rule_format, OF n1]
  note k2 = receiver_kept_without_Properties[OF d2, THEN conjunct2, rule_format, OF g]
  have p1: "properties_of (held_plain\<lparr>AWSCloudFormationCondition := ''IsTest''\<rparr>)
       = properties_of held_plain"
    by (rule k1[THEN conjunct1])
  have p2: "AWSCloudFormationDependsOn (held_plain\<lparr>AWSCloudFormationCondition := ''IsTest''\<rparr>)
       = AWSCloudFormationDependsOn held_plain"
    by (rule k1[THEN conjunct2, THEN conjunct1, rule_format, OF n2])
  have p3: "AWSCloudFormationDependsOn (zero_plain\<lparr>AWSCloudFormationCondition := ''IsTest''\<rparr>)
       = None"
    by (rule k2[THEN conjunct1, rule_format, OF n3])
  show ?thesis using d1 n1 n2 p1 p2 d2 g n3 p3 by (intro conjI)
qed

section \<open>The shape of an encoded resource\<close>

lemma encode_field_empty: "(encode_field cd r (n, f) = []) = field_empty r f"
  by (cases f) (auto split: option.splits)

lemma encode_fields_empty:
  "(concat (map (encode_field cd r) fs) = []) = list_all (field_empty r) (map snd fs)"
  by (induction fs) (auto simp: encode_field_empty)

lemma encode_Properties_empty:
  "\<exists>ps. encode_Properties cd r = JObject ps \<and> (ps = []) = properties_empty r"
  unfolding encode_Properties_def properties_empty_def
  by (simp only: json.inject simp_thms ex_simps encode_fields_empty)

lemma MarshalJSON_object: "\<exists>ms. MarshalJSON cd r = JObject ms"
  by (simp add: MarshalJSON_def)

lemma MarshalJSON_members:
  "members (MarshalJSON cd r) =
     [(''Type'', JString (AWSCloudFormationType r)), (''Properties'', encode_Properties cd r)]
     @ (if AWSCloudFormationDependsOn r = None \<or> AWSCloudFormationDependsOn r = Some [] then []
        else [(''DependsOn'', JArray (map JString (the (AWSCloudFormationDependsOn r))))])
     @ (if AWSCloudFormationMetadata r = None \<or> AWSCloudFormationMetadata r = Some [] then []
        else [(''Metadata'', JObject (the (AWSCloudFormationMetadata r)))])
     @ (if AWSCloudFormationDeletionPolicy r = [] then []
        else [(''DeletionPolicy'', JString (AWSCloudFormationDeletionPolicy r))])
     @ (if AWSCloudFormationUpdateReplacePolicy r = [] then []
        else [(''UpdateReplacePolicy'', JString (AWSCloudFormationUpdateReplacePolicy r))])
     @ (if AWSCloudFormationCondition r = [] then []
        else [(''Condition'', JString (AWSCloudFormationCondition r))])"
  by (simp add: MarshalJSON_def members_def split: option.splits)

lemma optional_members_distinct:
  "distinct (map fst
     ([(''Type'', t), (''Properties'', p)]
      @ (if a then [] else [(''DependsOn'', x1)])
      @ (if b then [] else [(''Metadata'', x2)])
      @ (if c then [] else [(''DeletionPolicy'', x3)])
      @ (if d then [] else [(''UpdateReplacePolicy'', x4)])
      @ (if e then [] else [(''Condition'', x5)])))"
  by (cases a; cases b; cases c; cases d; cases e; simp)

lemma MarshalJSON_distinct: "distinct (map fst (members (MarshalJSON cd r)))"
  unfolding MarshalJSON_members by (rule optional_members_distinct)

lemma MarshalJSON_Type:
  "map_of (members (MarshalJSON cd r)) ''Type'' = Some (JString ''AWS::CodeDeploy::DeploymentGroup'')"
  by (simp add: MarshalJSON_def members_def AWSCloudFormationType_def)

lemma MarshalJSON_Properties:
  "map_of (members (MarshalJSON cd r)) ''Properties'' = Some (encode_Properties cd r)"
  by (simp add: MarshalJSON_def members_def)

lemma MarshalJSON_DependsOn:
  "(map_of (members (MarshalJSON cd r)) ''DependsOn'' = None)
     = (AWSCloudFormationDependsOn r = None \<or> AWSCloudFormationDependsOn r = Some [])"
  by (simp add: MarshalJSON_def members_def map_add_def split: option.splits)

lemma MarshalJSON_Metadata:
  "(map_of (members (MarshalJSON cd r)) ''Metadata'' = None)
     = (AWSCloudFormationMetadata r = None \<or> AWSCloudFormationMetadata r = Some [])"
  by (simp add: MarshalJSON_def members_def map_add_def split: option.splits)

lemma MarshalJSON_DeletionPolicy:
  "(map_of (members (MarshalJSON cd r)) ''DeletionPolicy'' = None)
     = (AWSCloudFormationDeletionPolicy r = [])"
  by (simp add: MarshalJSON_def members_def map_add_def split: option.splits)

lemma MarshalJSON_UpdateReplacePolicy:
  "(map_of (members (MarshalJSON cd r)) ''UpdateReplacePolicy'' = None)
     = (AWSCloudFormationUpdateReplacePolicy r = [])"
  by (simp add: MarshalJSON_def members_def map_add_def split: option.splits)

lemma MarshalJSON_Condition:
  "(map_of (members (MarshalJSON cd r)) ''Condition'' = None)
     = (AWSCloudFormationCondition r = [])"
  by (simp add: MarshalJSON_def members_def map_add_def split: option.splits)

text \<open>
  Claim C6. The encoding of a resource is an object whose keys are distinct. It always
  has the key Type, with the type name of the resource, and the key Properties, with an
  object that is empty exactly when the property set is empty. It has no key DependsOn
  exactly when the field is nil or of length zero, no key Metadata exactly when the map
  is nil or empty, and no key DeletionPolicy, UpdateReplacePolicy or Condition exactly
  when the field is the empty string.
\<close>

theorem MarshalJSON_shape:
  "\<exists>ms ps. MarshalJSON cd r = JObject ms
     \<and> distinct (map fst ms)
     \<and> map_of ms ''Type'' = Some (JString ''AWS::CodeDeploy::DeploymentGroup'')
     \<and> map_of ms ''Properties'' = Some (JObject ps)
     \<and> (ps = []) = properties_empty r
     \<and> (map_of ms ''DependsOn'' = None)
         = (AWSCloudFormationDependsOn r = None \<or> AWSCloudFormationDependsOn r = Some [])
     \<and> (map_of ms ''Metadata'' = None)
         = (AWSCloudFormationMetadata r = None \<or> AWSCloudFormationMetadata r = Some [])
     \<and> (map_of ms ''DeletionPolicy'' = None) = (AWSCloudFormationDeletionPolicy r = [])
     \<and> (map_of ms ''UpdateReplacePolicy'' = None)
         = (AWSCloudFormationUpdateReplacePolicy r = [])
     \<and> (map_of ms ''Condition'' = None) = (AWSCloudFormationCondition r = [])"
proof -
  obtain ms where ms: "MarshalJSON cd r = JObject ms"
    using MarshalJSON_object by blast
  then have m: "members (MarshalJSON cd r) = ms"
    by (simp add: members_def)
  obtain ps where ps: "encode_Properties cd r = JObject ps" "(ps = []) = properties_empty r"
    using encode_Properties_empty by blast
  have "distinct (map fst ms)"
    using MarshalJSON_distinct[of cd r] by (simp only: m)
  moreover have "map_of ms ''Type'' = Some (JString ''AWS::CodeDeploy::DeploymentGroup'')"
    using MarshalJSON_Type[of cd r] by (simp only: m)
  moreover have "map_of ms ''Properties'' = Some (JObject ps)"
    using MarshalJSON_Properties[of cd r] by (simp only: m ps)
  moreover have "(map_of ms ''DependsOn'' = None)
         = (AWSCloudFormationDependsOn r = None \<or> AWSCloudFormationDependsOn r = Some [])"
    using MarshalJSON_DependsOn[of cd r] by (simp only: m)
  moreover have "(map_of ms ''Metadata'' = None)
         = (AWSCloudFormationMetadata r = None \<or> AWSCloudFormationMetadata r = Some [])"
    using MarshalJSON_Metadata[of cd r] by (simp only: m)
  moreover have "(map_of ms ''DeletionPolicy'' = None) = (AWSCloudFormationDeletionPolicy r = [])"
    using MarshalJSON_DeletionPolicy[of cd r] by (simp only: m)
  moreover have "(map_of ms ''UpdateReplacePolicy'' = None)
         = (AWSCloudFormationUpdateReplacePolicy r = [])"
    using MarshalJSON_UpdateReplacePolicy[of cd r] by (simp only: m)
  moreover have "(map_of ms ''Condition'' = None) = (AWSCloudFormationCondition r = [])"
    using MarshalJSON_Condition[of cd r] by (simp only: m)
  ultimately show ?thesis
    using ms ps(2) by (intro exI[of _ ms] exI[of _ ps] conjI)
qed

theorem MarshalJSON_shape_witness:
  "\<exists>ms. MarshalJSON plain zero_plain = JObject ms
     \<and> map_of ms ''Type'' = Some (JString ''AWS::CodeDeploy::DeploymentGroup'')
     \<and> map_of ms ''Properties'' = Some (JObject [])
     \<and> map_of ms ''DependsOn'' = None
     \<and> map_of ms ''DeletionPolicy'' = None"
proof -
  have e: "properties_empty zero_plain"
    by code_simp
  have z: "AWSCloudFormationDependsOn zero_plain = None"
    "AWSCloudFormationDeletionPolicy zero_plain = []"
    by code_simp+
  from MarshalJSON_shape[of plain zero_plain] obtain ms ps where
    k: "MarshalJSON plain zero_plain = JObject ms
     \<and> distinct (map fst ms)
     \<and> map_of ms ''Type'' = Some (JString ''AWS::CodeDeploy::DeploymentGroup'')
     \<and> map_of ms ''Properties'' = Some (JObject ps)
     \<and> (ps = []) = properties_empty zero_plain
     \<and> (map_of ms ''DependsOn'' = None)
         = (AWSCloudFormationDependsOn zero_plain = None
            \<or> AWSCloudFormationDependsOn zero_plain = Some [])
     \<and> (map_of ms ''Metadata'' = None)
         = (AWSCloudFormationMetadata zero_plain = None
            \<or> AWSCloudFormationMetadata zero_plain = Some [])
     \<and> (map_of ms ''DeletionPolicy'' = None) = (AWSCloudFormationDeletionPolicy zero_plain = [])
     \<and> (map_of ms ''UpdateReplacePolicy'' = None)
         = (AWSCloudFormationUpdateReplacePolicy zero_plain = [])
     \<and> (map_of ms ''Condition'' = None) = (AWSCloudFormationCondition zero_plain = [])"
    by (elim exE)
  have "ps = []" using k e by simp
  then show ?thesis using k z by (intro exI[of _ ms]) simp
qed

end
